theory Spec2Isabelle
  imports Complex_Main "HOL-Library.AList"
begin

section \<open>The cart service (src/services/cart/cart.service.js)\<close>

text \<open>
  A shallow embedding of the actions and methods of the cart service. JavaScript values
  are modelled on the types the service's own schemas give them (\<open>settings.entityValidator\<close>
  and each action's \<open>params\<close>): a cart document is an object, that is an ordered list
  of properties; its \<open>items\<close> is an array of line items; a line item has an \<open>_id\<close>
  (string), an \<open>amount\<close> (number) and optional \<open>requirements\<close> (array). A finite
  number is given by its rational value; the amount of a line is any JavaScript number,
  and arithmetic on it rounds as IEEE 754 doubles do. Timestamps are natural numbers.
\<close>

subsection \<open>Numbers\<close>

text \<open>
  A JavaScript number is an IEEE 754 binary64 value: NaN, one of the two infinities, or
  a finite double, given here by its rational value. The two zeros are one value: they
  compare equal, and no action tells them apart.
\<close>

datatype number = NaN | MinusInfinity | Double rat | PlusInfinity

text \<open>\<open>floor_log2 n\<close> is the integer part of the binary logarithm of \<open>n \<ge> 1\<close>, and
  \<open>pow2 e\<close> is 2 to the power \<open>e\<close>.\<close>

function floor_log2 :: "int \<Rightarrow> int" where
  "floor_log2 n = (if n < 2 then 0 else 1 + floor_log2 (n div 2))"
  by pat_completeness auto
termination
  by (relation "measure nat") auto

declare floor_log2.simps [simp del]

definition pow2 :: "int \<Rightarrow> rat" where
  "pow2 e = (if 0 \<le> e then 2 ^ nat e else 1 / 2 ^ nat (- e))"

text \<open>The binary exponent of \<open>q > 0\<close>: the \<open>e\<close> with \<open>2^e \<le> q < 2^(e+1)\<close>.\<close>

definition binade :: "rat \<Rightarrow> int" where
  "binade q = (if 1 \<le> q then floor_log2 \<lfloor>q\<rfloor>
               else - (1 + floor_log2 (\<lceil>1 / q\<rceil> - 1)))"

text \<open>Rounding to the nearest integer, a tie to the even one.\<close>

definition round_half_even :: "rat \<Rightarrow> int" where
  "round_half_even x =
     (let f = \<lfloor>x\<rfloor>; r = x - of_int f
      in if r < 1 / 2 then f else if 1 / 2 < r then f + 1 else if even f then f else f + 1)"

text \<open>
  The double nearest to \<open>q > 0\<close>, a tie to the even significand: doubles have 53
  significant bits, so in the binade \<open>e\<close> they are the multiples of \<open>2^(e-52)\<close>; below
  \<open>2^-1022\<close> (the subnormal range) they are the multiples of \<open>2^-1074\<close>. A result of
  \<open>2^1024\<close> or more is an overflow (\<open>None\<close>).
\<close>

definition round_magnitude :: "rat \<Rightarrow> rat option" where
  "round_magnitude q =
     (let e = max (binade q) (- 1022);
          quantum = pow2 (e - 52);
          r = of_int (round_half_even (q / quantum)) * quantum
      in if r < pow2 1024 then Some r else None)"

definition round_double :: "rat \<Rightarrow> number" where
  "round_double q =
     (if q = 0 then Double 0
      else if 0 < q then (case round_magnitude q of Some r \<Rightarrow> Double r | None \<Rightarrow> PlusInfinity)
      else (case round_magnitude (- q) of Some r \<Rightarrow> Double (- r) | None \<Rightarrow> MinusInfinity))"

text \<open>\<open>a - b\<close> on numbers: the exact difference of two finite doubles, rounded; NaN
  and the infinities as IEEE 754 has them.\<close>

fun js_minus :: "number \<Rightarrow> number \<Rightarrow> number" where
  "js_minus NaN b = NaN"
| "js_minus a NaN = NaN"
| "js_minus (Double x) (Double y) = round_double (x - y)"
| "js_minus (Double x) PlusInfinity = MinusInfinity"
| "js_minus (Double x) MinusInfinity = PlusInfinity"
| "js_minus PlusInfinity PlusInfinity = NaN"
| "js_minus PlusInfinity b = PlusInfinity"
| "js_minus MinusInfinity MinusInfinity = NaN"
| "js_minus MinusInfinity b = MinusInfinity"

text \<open>\<open>a <= 0\<close> on a number: false on NaN.\<close>

fun le_zero :: "number \<Rightarrow> bool" where
  "le_zero NaN = False"
| "le_zero MinusInfinity = True"
| "le_zero (Double x) = (x \<le> 0)"
| "le_zero PlusInfinity = False"

subsection \<open>Values, line items and cart documents\<close>

text \<open>A line of the cart: the fields of \<open>cart.items[i]\<close> that the actions read or write.
  \<open>requirements = None\<close> is the property being absent (undefined).\<close>

record cart_item =
  item_id :: string
  amount :: number
  requirements :: "(string \<times> string) list option"

text \<open>The values a property of a cart document holds.\<close>

datatype jsval =
    Undefined
  | Null
  | Bool bool
  | Num rat
  | Str string
  | Date nat
  | Items "cart_item list"

text \<open>An object: its own enumerable properties, in insertion order.\<close>

type_synonym obj = "(string \<times> jsval) list"

text \<open>JavaScript's ToBoolean: what \<open>if (v)\<close> and \<open>v && ...\<close> test.\<close>

fun truthy :: "jsval \<Rightarrow> bool" where
  "truthy Undefined = False"
| "truthy Null = False"
| "truthy (Bool b) = b"
| "truthy (Num n) = (n \<noteq> 0)"
| "truthy (Str s) = (s \<noteq> [])"
| "truthy (Date t) = True"
| "truthy (Items xs) = True"

text \<open>\<open>Object.prototype.hasOwnProperty.call(o, k)\<close>, the property read \<open>o.k\<close>
  (undefined when the object has no such property), the assignment \<open>o.k = v\<close> (an
  existing property keeps its place, a new one is added last) and \<open>delete o.k\<close>.\<close>

definition hasOwnProperty :: "obj \<Rightarrow> string \<Rightarrow> bool" where
  "hasOwnProperty ob k = (map_of ob k \<noteq> None)"

definition js_get :: "obj \<Rightarrow> string \<Rightarrow> jsval" where
  "js_get ob k = (case map_of ob k of None \<Rightarrow> Undefined | Some v \<Rightarrow> v)"

definition js_set :: "obj \<Rightarrow> string \<Rightarrow> jsval \<Rightarrow> obj" where
  "js_set ob k v = AList.update k v ob"

definition js_delete :: "obj \<Rightarrow> string \<Rightarrow> obj" where
  "js_delete ob k = AList.delete k ob"

subsection \<open>Errors\<close>

text \<open>A rejected promise or a thrown exception. \<open>MoleculerClientError\<close> carries its
  message; \<open>ValidationError\<close> is what the broker raises when the \<open>params\<close> schema of
  an action refuses the call; \<open>TypeError\<close> is a property read on undefined;
  \<open>StorageError\<close> stands for any rejection of a storage call.\<close>

datatype error =
    MoleculerClientError string
  | ValidationError
  | TypeError
  | StorageError string

subsection \<open>methods.prepareForUpdate\<close>

text \<open>The update command \<open>{ "$set": objectToSave }\<close>.\<close>

datatype update_cmd = Set obj

text \<open>
  \<^verbatim>\<open>
  prepareForUpdate(object) {
    let objectToSave = Object.assign({}, object);
    if ( typeof objectToSave._id !== "undefined" && objectToSave._id ) {
      delete objectToSave._id;
    }
    return { "$set": objectToSave };
  }
  \<close>
\<close>

definition prepareForUpdate :: "obj \<Rightarrow> update_cmd" where
  "prepareForUpdate object =
     (let objectToSave = object in
      if js_get objectToSave ''_id'' \<noteq> Undefined \<and> truthy (js_get objectToSave ''_id'')
      then Set (js_delete objectToSave ''_id'')
      else Set objectToSave)"

fun payload :: "update_cmd \<Rightarrow> obj" where
  "payload (Set ob) = ob"

subsection \<open>The request context and the storage\<close>

text \<open>
  What \<open>ctx.call("cart.me")\<close> resolves to and what \<open>ctx.meta.cart\<close> holds: undefined
  (\<open>NoCart\<close>), a cart document, or a non-empty array of cart documents, the shape that
  the actions normalise with \<open>if (cart && cart.length>0) { cart = cart[0]; }\<close>. A cart
  document carries the fields of \<open>settings.fields\<close>; it has no \<open>length\<close>, so the test
  is false on it.
\<close>

datatype resolved = NoCart | Cart obj | CartList obj "obj list"

fun first_cart :: "resolved \<Rightarrow> obj option" where
  "first_cart NoCart = None"
| "first_cart (Cart c) = Some c"
| "first_cart (CartList c cs) = Some c"

text \<open>
  The part of the world an action changes: the request's cart slot \<open>ctx.meta.cart\<close>,
  the calls \<open>adapter.updateById(id, update)\<close> made so far (oldest first), and the
  notifications \<open>entityChanged(type, json, ctx)\<close> sent so far.
\<close>

record world =
  meta_cart :: resolved
  written :: "(jsval \<times> update_cmd) list"
  emitted :: "(string \<times> obj) list"

text \<open>
  The collaborators of the mixins, taken as parameters: what the storage adapter answers
  to \<open>updateById\<close> (a document, or a rejection), and \<open>transformDocuments\<close>.
\<close>

record services =
  updateById :: "jsval \<Rightarrow> update_cmd \<Rightarrow> error + obj"
  transformDocuments :: "obj \<Rightarrow> obj"

text \<open>
  The tail that \<open>delete\<close>, \<open>updateCartItemAmount\<close> and \<open>updateMyCart\<close> share:
  \<^verbatim>\<open>
  ctx.meta.cart = cart;
  return this.adapter.updateById(ctx.meta.cart._id, this.prepareForUpdate(cart))
    .then(doc => this.transformDocuments(ctx, {}, doc))
    .then(json => this.entityChanged("removed", json, ctx).then(() => json));
  \<close>
  The action resolves to \<open>json\<close>; a rejection of the adapter is the action's rejection.
\<close>

definition save_cart ::
  "services \<Rightarrow> string \<Rightarrow> obj \<Rightarrow> world \<Rightarrow> (error + obj option) \<times> world" where
  "save_cart sv event cart w =
     (let w1 = w\<lparr>meta_cart := Cart cart,
                 written := written w @ [(js_get cart ''_id'', prepareForUpdate cart)]\<rparr>
      in case updateById sv (js_get cart ''_id'') (prepareForUpdate cart) of
           Inl err \<Rightarrow> (Inl err, w1)
         | Inr doc \<Rightarrow>
             (let json = transformDocuments sv doc
              in (Inr (Some json), w1\<lparr>emitted := emitted w1 @ [(event, json)]\<rparr>)))"

subsection \<open>actions.me\<close>

text \<open>What \<open>cart.find\<close> may resolve to: nothing, one document, or an array whose
  elements are again such values (a nested array is an element that is an array).\<close>

datatype shape = Undef | Doc obj | Arr "shape list"

fun is_Array :: "shape \<Rightarrow> bool" where
  "is_Array (Arr xs) = True"
| "is_Array _ = False"

fun shape_truthy :: "shape \<Rightarrow> bool" where
  "shape_truthy Undef = False"
| "shape_truthy _ = True"

text \<open>\<open>found[0]\<close> on an array; undefined when it is empty.\<close>

fun first_element :: "shape \<Rightarrow> shape" where
  "first_element (Arr (x # xs)) = x"
| "first_element _ = Undef"

fun as_resolved :: "shape \<Rightarrow> resolved" where
  "as_resolved (Doc c) = Cart c"
| "as_resolved _ = NoCart"

text \<open>
  \<^verbatim>\<open>
  let cartCookie = (ctx.meta && ctx.meta.cookies && ctx.meta.cookies.cart) ? ctx.meta.cookies.cart : null;
  if ( cartCookie && ctx.meta.cart ) {
    return ctx.meta.cart;
  } else {
    return ctx.call("cart.find", { "query": { hash: cartCookie } })
      .then(found => {
        if (found && found.constructor===Array && found[0] && found[0].constructor!==Array ) {
          if ( found && found.length>0 ) { found = found[0]; }
          ctx.meta.cart = found;
          return ctx.meta.cart;
        } else {
          return this.createEmptyCart(ctx, cartCookie);
        }
      })
      .catch(err => { this.logger.error("cart.me - error: ", err); });
  }
  \<close>
  \<open>cookies_cart\<close> is \<open>ctx.meta.cookies.cart\<close> (\<open>None\<close> when any part of the path is
  missing) and \<open>cartCookie_of\<close> the first line: a falsy cookie becomes null;
  \<open>cart_find\<close> is what the storage answers to the query by hash;
  \<open>createEmptyCart\<close> is the method of methods/core.methods. Inside the guard,
  \<open>found[0]\<close> is truthy and no array, hence a document. The \<open>catch\<close> turns every
  rejection into undefined (\<open>caught\<close>).
\<close>

fun caught :: "(error + resolved) \<times> world \<Rightarrow> resolved \<times> world" where
  "caught (Inl err, w) = (NoCart, w)"
| "caught (Inr cart, w) = (cart, w)"

fun cartCookie_of :: "string option \<Rightarrow> string option" where
  "cartCookie_of None = None"
| "cartCookie_of (Some c) = (if c \<noteq> [] then Some c else None)"

definition me ::
  "(string option \<Rightarrow> world \<Rightarrow> (error + resolved) \<times> world) \<Rightarrow>
   (string option \<Rightarrow> error + shape) \<Rightarrow> string option \<Rightarrow> world \<Rightarrow> resolved \<times> world" where
  "me createEmptyCart cart_find cookies_cart w =
     (let cartCookie = cartCookie_of cookies_cart
      in if cartCookie \<noteq> None \<and> meta_cart w \<noteq> NoCart then (meta_cart w, w)
         else (case cart_find cartCookie of
                 Inl err \<Rightarrow> (NoCart, w)
               | Inr found \<Rightarrow>
                   if shape_truthy found \<and> is_Array found \<and> shape_truthy (first_element found)
                      \<and> \<not> is_Array (first_element found)
                   then (let found1 = first_element found
                         in (as_resolved found1, w\<lparr>meta_cart := as_resolved found1\<rparr>))
                   else caught (createEmptyCart cartCookie w)))"

text \<open>
  Modelled from the spec: \<open>createEmptyCart\<close> of methods/core.methods, which is not
  under src/. Section 4.1: zero matches create a new empty cart with \<open>hash = T\<close>,
  \<open>dateCreated = dateUpdated = now\<close>, bind it to the request and return it.
\<close>

definition createEmptyCart_spec ::
  "nat \<Rightarrow> string option \<Rightarrow> world \<Rightarrow> (error + resolved) \<times> world" where
  "createEmptyCart_spec now cartCookie w =
     (let cart = [(''hash'', case cartCookie of None \<Rightarrow> Null | Some h \<Rightarrow> Str h),
                  (''dateCreated'', Date now), (''dateUpdated'', Date now),
                  (''items'', Items [])]
      in (Inr (Cart cart), w\<lparr>meta_cart := Cart cart\<rparr>))"

subsection \<open>actions.add\<close>

text \<open>A product as \<open>products.findWithId\<close> returns it: the fields the stock check reads
  (\<open>None\<close>: the property is undefined).\<close>

record product =
  product_id :: string
  stockAmount :: "rat option"
  product_type :: "string option"
  subtype :: "string option"

text \<open>What \<open>products.findWithId\<close> resolves to: a falsy value, one product or an
  array of products; and what the stock check hands on: the first product, or the empty array itself.\<close>

datatype found_products = NoProducts | OneProduct product | Products "product list"

datatype available = Product product | EmptyArray

text \<open>The first \<open>if\<close> and the test of the second: \<open>None\<close> is the rejection with
  "No matching product found".\<close>

fun first_product :: "found_products \<Rightarrow> available option" where
  "first_product NoProducts = None"
| "first_product (OneProduct p) = Some (Product p)"
| "first_product (Products []) = Some EmptyArray"
| "first_product (Products (p # ps)) = Some (Product p)"

record add_params =
  add_itemId :: string
  add_amount :: rat
  add_requirements :: "(string \<times> string) list option"

text \<open>\<open>params: { itemId: { type: "string", min: 3 }, amount: { type: "number",
  positive: true }, requirements: { type: "array", optional: true } }\<close>\<close>

definition add_params_ok :: "add_params \<Rightarrow> bool" where
  "add_params_ok p = (3 \<le> length (add_itemId p) \<and> 0 < add_amount p)"

text \<open>\<open>a > b\<close> where \<open>b\<close> may be undefined: a comparison with undefined is false.\<close>

fun gt_undefined :: "rat \<Rightarrow> rat option \<Rightarrow> bool" where
  "gt_undefined a None = False"
| "gt_undefined a (Some b) = (a > b)"

fun undefined_gt :: "rat option \<Rightarrow> rat \<Rightarrow> bool" where
  "undefined_gt None b = False"
| "undefined_gt (Some a) b = (a > b)"

text \<open>
  The first \<open>then\<close> of the handler: the product, and \<open>ctx.params.amount\<close> as it leaves.
  \<^verbatim>\<open>
  if (productAvailable && productAvailable.length>0) {
    productAvailable = productAvailable[0];
    productAvailable._id = productAvailable._id.toString();
  }
  if (!productAvailable || (productAvailable.length===0 && productAvailable[0])) {
    return this.Promise.reject(new MoleculerClientError("No matching product found"));
  }
  if (ctx.params.amount > productAvailable.stockAmount) {
    if (productAvailable.type=="subscription" || productAvailable.subtype=="digital") {
      ctx.params.amount = 1;
      if (productAvailable.stockAmount>-1) {
        return this.Promise.reject(new MoleculerClientError("Requested amount is not available"));
      }
    } else { // physical products
      return this.Promise.reject(new MoleculerClientError("Requested amount is not available"));
    }
  }
  return productAvailable;
  \<close>
  On the empty array neither test of the second \<open>if\<close> holds (\<open>[][0]\<close> is undefined),
  and \<open>[].stockAmount\<close> is undefined, so the array itself is handed on.
\<close>

definition ProductNotFound :: error where
  "ProductNotFound = MoleculerClientError ''No matching product found''"

definition InsufficientStock :: error where
  "InsufficientStock = MoleculerClientError ''Requested amount is not available''"

definition check_available :: "rat \<Rightarrow> found_products \<Rightarrow> error + (available \<times> rat)" where
  "check_available amount0 found =
     (case first_product found of
        None \<Rightarrow> Inl ProductNotFound
      | Some EmptyArray \<Rightarrow> Inr (EmptyArray, amount0)
      | Some (Product productAvailable) \<Rightarrow>
          if gt_undefined amount0 (stockAmount productAvailable) then
            (if product_type productAvailable = Some ''subscription''
                \<or> subtype productAvailable = Some ''digital''
             then (if undefined_gt (stockAmount productAvailable) (- 1)
                   then Inl InsufficientStock
                   else Inr (Product productAvailable, 1))
             else Inl InsufficientStock)
          else Inr (Product productAvailable, amount0))"

text \<open>
  The handler: the stock check, then
  \<^verbatim>\<open>
  productAvailable = this.addCartItemRequirements(ctx, productAvailable);
  return this.addToCart(ctx, productAvailable);
  \<close>
  with the two methods of methods/core.methods as parameters; they see \<open>ctx.params\<close>
  with the amount the stock check left there.
\<close>

definition add ::
  "(add_params \<Rightarrow> available \<Rightarrow> available) \<Rightarrow> (add_params \<Rightarrow> available \<Rightarrow> error + 'r) \<Rightarrow>
   add_params \<Rightarrow> found_products \<Rightarrow> error + 'r" where
  "add addCartItemRequirements addToCart params found =
     (case check_available (add_amount params) found of
        Inl err \<Rightarrow> Inl err
      | Inr (productAvailable, amount1) \<Rightarrow>
          (let ctx_params = params\<lparr>add_amount := amount1\<rparr>
           in addToCart ctx_params (addCartItemRequirements ctx_params productAvailable)))"

subsection \<open>actions.delete and actions.updateCartItemAmount\<close>

text \<open>An optional parameter of an action: not given (undefined), null, or a value.\<close>

datatype 'a param = NotGiven | IsNull | Given 'a

fun the_given :: "'a param \<Rightarrow> 'a" where
  "the_given (Given v) = v"

text \<open>\<open>ctx.params\<close> of both actions. A given amount is a finite number.\<close>

record mutation_params =
  itemId :: "string param"
  amount_param :: "rat param"

text \<open>\<open>params: { itemId: { type: "string", min: 3, optional: true }, amount: { type:
  "number", positive: true, optional: true } }\<close>: what the broker's validator lets
  through to the handler. An optional parameter may be missing or null.\<close>

definition mutation_params_ok :: "mutation_params \<Rightarrow> bool" where
  "mutation_params_ok p =
     ((case itemId p of Given s \<Rightarrow> 3 \<le> length s | _ \<Rightarrow> True)
      \<and> (case amount_param p of Given a \<Rightarrow> 0 < a | _ \<Rightarrow> True))"

text \<open>\<open>if ( ctx.params.itemId )\<close>: given and not the empty string.\<close>

fun itemId_truthy :: "string param \<Rightarrow> bool" where
  "itemId_truthy (Given s) = (s \<noteq> [])"
| "itemId_truthy _ = False"

text \<open>\<open>if ( ctx.params.amount && ctx.params.amount>0 )\<close>: undefined and null are
  falsy.\<close>

fun amount_positive :: "rat param \<Rightarrow> bool" where
  "amount_positive (Given a) = (a \<noteq> 0 \<and> a > 0)"
| "amount_positive _ = False"

text \<open>\<open>v.length > 0\<close> on a truthy value: arrays and strings have a length, on every
  other value \<open>v.length\<close> is undefined and the comparison is false.\<close>

fun length_gt0 :: "jsval \<Rightarrow> bool" where
  "length_gt0 (Items xs) = (xs \<noteq> [])"
| "length_gt0 (Str s) = (s \<noteq> [])"
| "length_gt0 _ = False"

text \<open>\<open>if ( cart.items && cart.items.length>0 )\<close>\<close>

definition has_items :: "jsval \<Rightarrow> bool" where
  "has_items v = (truthy v \<and> length_gt0 v)"

text \<open>The elements of \<open>cart.items\<close> that have an \<open>_id\<close> for the search to compare: the
  lines of an array; the characters of a string have none.\<close>

fun lines :: "jsval \<Rightarrow> cart_item list" where
  "lines (Items xs) = xs"
| "lines _ = []"

text \<open>
  \<^verbatim>\<open>
  let productInCart = -1;
  for (let i=0; i<cart.items.length; i++) {
    if (cart.items[i]._id == ctx.params.itemId) {
      productInCart = i;
      break;
    }
  }
  \<close>
  \<open>find_from i xs k\<close> is the loop at index \<open>i\<close> with the lines \<open>xs\<close> still ahead.
\<close>

fun find_from :: "int \<Rightarrow> cart_item list \<Rightarrow> string \<Rightarrow> int" where
  "find_from i [] k = - 1"
| "find_from i (x # xs) k = (if item_id x = k then i else find_from (i + 1) xs k)"

definition findProductInCart :: "cart_item list \<Rightarrow> string \<Rightarrow> int" where
  "findProductInCart xs k = find_from 0 xs k"

text \<open>\<open>xs.splice(i, 1)\<close>\<close>

definition splice1 :: "nat \<Rightarrow> 'a list \<Rightarrow> 'a list" where
  "splice1 i xs = take i xs @ drop (Suc i) xs"

text \<open>
  The body of \<open>if (productInCart>-1)\<close> in \<open>delete\<close>, at the index found:
  \<^verbatim>\<open>
  if ( ctx.params.amount && ctx.params.amount>0 ) {
    cart.items[productInCart].amount = cart.items[productInCart].amount - ctx.params.amount;
    if (cart.items[productInCart].amount<=0) {
      cart.items.splice(productInCart, 1);
    }
  } else {
    cart.items.splice(productInCart, 1);
  }
  \<close>
\<close>

definition delete_line :: "rat param \<Rightarrow> nat \<Rightarrow> cart_item list \<Rightarrow> cart_item list" where
  "delete_line amount0 i xs =
     (if amount_positive amount0 then
        (let xs1 = xs[i := (xs ! i)\<lparr>amount := js_minus (amount (xs ! i))
                                                (Double (the_given amount0))\<rparr>]
         in if le_zero (amount (xs1 ! i)) then splice1 i xs1 else xs1)
      else splice1 i xs)"

text \<open>
  \<^verbatim>\<open>
  .then(cart => {
    if (cart && cart.length>0) { cart = cart[0]; }
    if ( cart.items && cart.items.length>0 ) {
      if ( ctx.params.itemId ) {
        ... the search ...
        if (productInCart>-1) { ... the body above ... }
      } else {
        cart.items = [];
      }
      cart.dateUpdated = new Date();
      ... the shared tail, with "removed" ...
    }
  });
  \<close>
  \<open>r\<close> is what \<open>ctx.call("cart.me")\<close> resolved to. Reading \<open>cart.items\<close> on undefined
  throws; where the outer \<open>if\<close> fails the callback returns undefined (\<open>Inr None\<close>).
  A line is found only where \<open>cart.items\<close> is an array, and the array is changed in
  place: the property keeps its position in the document.
\<close>

definition delete ::
  "services \<Rightarrow> nat \<Rightarrow> mutation_params \<Rightarrow> resolved \<Rightarrow> world \<Rightarrow> (error + obj option) \<times> world" where
  "delete sv now params r w =
     (case first_cart r of
        None \<Rightarrow> (Inl TypeError, w)
      | Some cart \<Rightarrow>
          if has_items (js_get cart ''items'') then
            (let cart1 =
               (if itemId_truthy (itemId params) then
                  (let xs = lines (js_get cart ''items'');
                       productInCart = findProductInCart xs (the_given (itemId params))
                   in if productInCart > - 1
                      then js_set cart ''items''
                             (Items (delete_line (amount_param params) (nat productInCart) xs))
                      else cart)
                else js_set cart ''items'' (Items []));
                 cart2 = js_set cart1 ''dateUpdated'' (Date now)
             in save_cart sv ''removed'' cart2 w)
          else (Inr None, w))"

text \<open>
  The body of \<open>if (productInCart>-1)\<close> in \<open>updateCartItemAmount\<close>, at the index found:
  \<^verbatim>\<open>
  if ( ctx.params.amount && ctx.params.amount>0 ) {
    cart.items[productInCart].amount = ctx.params.amount;
    if (cart.items[productInCart].amount<=0) {
      cart.items.splice(productInCart, 1);
    }
    if (cart.items[productInCart].requirements && cart.items[productInCart].requirements.length>0) {
      cart.items[productInCart].amount = 1;
    }
  }
  \<close>
  After a splice of the last line, \<open>cart.items[productInCart]\<close> is undefined and the
  read of its \<open>requirements\<close> throws.
\<close>

definition set_line_amount :: "rat param \<Rightarrow> nat \<Rightarrow> cart_item list \<Rightarrow> error + cart_item list" where
  "set_line_amount amount0 i xs =
     (if amount_positive amount0 then
        (let xs1 = xs[i := (xs ! i)\<lparr>amount := Double (the_given amount0)\<rparr>];
             xs2 = (if le_zero (amount (xs1 ! i)) then splice1 i xs1 else xs1)
         in if i < length xs2 then
              (case requirements (xs2 ! i) of
                 None \<Rightarrow> Inr xs2
               | Some rs \<Rightarrow>
                   if rs \<noteq> [] then Inr (xs2[i := (xs2 ! i)\<lparr>amount := Double 1\<rparr>]) else Inr xs2)
            else Inl TypeError)
      else Inr xs)"

text \<open>
  \<^verbatim>\<open>
  ctx.params.itemId = (typeof ctx.params.itemId !== "undefined") ?  ctx.params.itemId : null;
  ctx.params.amount = (typeof ctx.params.amount !== "undefined") ?  ctx.params.amount : 1;
  return ctx.call("cart.me")
    .then(cart => {
      if (cart && cart.length>0) { cart = cart[0]; }
      if ( cart.items && cart.items.length>0 ) {
        if ( ctx.params.itemId ) {
          ... the search ...
          if (productInCart>-1) { ... the body above ... }
        }
        cart.dateUpdated = new Date();
        ... the shared tail, with "updated" ...
      }
    });
  \<close>
  The first two lines replace only an undefined parameter: a missing \<open>itemId\<close> becomes
  null, a missing amount becomes 1, and a null amount stays null. \<open>cart1\<close> is the cart
  after the outer \<open>if ( ctx.params.itemId )\<close>, or the exception thrown there.
\<close>

definition updateCartItemAmount ::
  "services \<Rightarrow> nat \<Rightarrow> mutation_params \<Rightarrow> resolved \<Rightarrow> world \<Rightarrow> (error + obj option) \<times> world" where
  "updateCartItemAmount sv now params r w =
     (let itemId1 = (case itemId params of NotGiven \<Rightarrow> IsNull | given \<Rightarrow> given);
          amount1 = (case amount_param params of NotGiven \<Rightarrow> Given 1 | given \<Rightarrow> given)
      in case first_cart r of
           None \<Rightarrow> (Inl TypeError, w)
         | Some cart \<Rightarrow>
             if has_items (js_get cart ''items'') then
               (let cart1 =
                  (if itemId_truthy itemId1 then
                     (let xs = lines (js_get cart ''items'');
                          productInCart = findProductInCart xs (the_given itemId1)
                      in if productInCart > - 1
                         then (case set_line_amount amount1 (nat productInCart) xs of
                                 Inl err \<Rightarrow> Inl err
                               | Inr xs1 \<Rightarrow> Inr (js_set cart ''items'' (Items xs1)))
                         else Inr cart)
                   else Inr cart)
                in case cart1 of
                     Inl err \<Rightarrow> (Inl err, w)
                   | Inr cart2 \<Rightarrow>
                       save_cart sv ''updated'' (js_set cart2 ''dateUpdated'' (Date now)) w)
             else (Inr None, w))"

subsection \<open>actions.updateMyCart\<close>

text \<open>
  \<^verbatim>\<open>
  .then(cart => {
    if (cart && cart.length>0) { cart = cart[0]; }
    if ( ctx.params.cartNew ) {
      for ( let property in ctx.params.cartNew ) {
        if ( Object.prototype.hasOwnProperty.call(cart,property)
             && Object.prototype.hasOwnProperty.call(ctx.params.cartNew,property) ) {
          cart[property] = ctx.params.cartNew[property];
        }
      }
    }
    cart.dateUpdated = new Date();
    ... the shared tail, with "updated" ...
  });
  \<close>
  \<open>cartNew\<close> is an object (\<open>params: { cartNew: { type: "object" } }\<close>), hence truthy;
  the loop runs over its properties. On an undefined cart \<open>hasOwnProperty.call\<close> or the
  assignment of \<open>dateUpdated\<close> throws.
\<close>

definition overwrite_property :: "obj \<Rightarrow> string \<Rightarrow> obj \<Rightarrow> obj" where
  "overwrite_property cartNew property cart =
     (if hasOwnProperty cart property \<and> hasOwnProperty cartNew property
      then js_set cart property (js_get cartNew property)
      else cart)"

definition updateMyCart ::
  "services \<Rightarrow> nat \<Rightarrow> obj \<Rightarrow> resolved \<Rightarrow> world \<Rightarrow> (error + obj option) \<times> world" where
  "updateMyCart sv now cartNew r w =
     (case first_cart r of
        None \<Rightarrow> (Inl TypeError, w)
      | Some cart \<Rightarrow>
          (let cart1 = fold (overwrite_property cartNew) (map fst cartNew) cart;
               cart2 = js_set cart1 ''dateUpdated'' (Date now)
           in save_cart sv ''updated'' cart2 w))"

subsection \<open>actions.cleanCarts\<close>

text \<open>
  \<^verbatim>\<open>
  let promises = [];
  const d = new Date();
  d.setMonth(d.getMonth() - 1);
  return this.adapter.find({ query: { dateUpdated: { "$lt": d } } })
    .then(found => {
      found.forEach(cart => {
        promises.push(
          ctx.call("cart.remove", {id: cart._id} )
            .then(removed => { return "Removed carts: " +JSON.stringify(removed); })
        );
      });
      return Promise.all(promises).then((result) => { return result; });
    });
  \<close>
  The storage is a parameter: \<open>adapter_find d s\<close> is the answer to the query at the
  cutoff \<open>d\<close> in the storage state \<open>s\<close>, \<open>cart_remove i s\<close> the answer of the
  \<open>cart.remove\<close> action for the id \<open>i\<close> and the state it leaves, \<open>stringify\<close> is
  \<open>JSON.stringify\<close>. \<open>forEach\<close> issues one removal per cart found, whatever the
  earlier ones answer; the calls are taken in the order of the array.
\<close>

fun remove_each ::
  "(jsval \<Rightarrow> 's \<Rightarrow> (error + 'r) \<times> 's) \<Rightarrow> obj list \<Rightarrow> 's \<Rightarrow> (error + 'r) list \<times> 's" where
  "remove_each cart_remove [] s = ([], s)"
| "remove_each cart_remove (cart # carts) s =
     (case cart_remove (js_get cart ''_id'') s of
        (outcome, s1) \<Rightarrow>
          (case remove_each cart_remove carts s1 of
             (outcomes, s2) \<Rightarrow> (outcome # outcomes, s2)))"

text \<open>\<open>Promise.all\<close>: the array of the values when every promise is fulfilled, and a
  rejection as soon as one is rejected. Where several are rejected, the one that settles
  first wins; the calls are taken in array order here, so it is the first of the array.\<close>

fun promise_all :: "(error + 'a) list \<Rightarrow> error + 'a list" where
  "promise_all [] = Inr []"
| "promise_all (Inl err # ps) = Inl err"
| "promise_all (Inr v # ps) = (case promise_all ps of Inl err \<Rightarrow> Inl err | Inr vs \<Rightarrow> Inr (v # vs))"

text \<open>\<open>.then(removed => "Removed carts: " + JSON.stringify(removed))\<close> on one promise.\<close>

fun then_report :: "('r \<Rightarrow> string) \<Rightarrow> error + 'r \<Rightarrow> error + string" where
  "then_report stringify (Inl err) = Inl err"
| "then_report stringify (Inr removed) = Inr (''Removed carts: '' @ stringify removed)"

definition cleanCarts ::
  "(nat \<Rightarrow> 's \<Rightarrow> error + obj list) \<Rightarrow> (jsval \<Rightarrow> 's \<Rightarrow> (error + 'r) \<times> 's) \<Rightarrow> ('r \<Rightarrow> string) \<Rightarrow>
   nat \<Rightarrow> 's \<Rightarrow> (error + string list) \<times> 's" where
  "cleanCarts adapter_find cart_remove stringify d s =
     (case adapter_find d s of
        Inl err \<Rightarrow> (Inl err, s)
      | Inr found \<Rightarrow>
          (case remove_each cart_remove found s of
             (outcomes, s1) \<Rightarrow> (promise_all (map (then_report stringify) outcomes), s1)))"

subsection \<open>A storage for the examples\<close>

text \<open>
  Collaborators to run the actions on: an adapter that answers every update with the
  fields written, under the id given, and one that rejects every update; a storage that is the list of its cart documents,
  where the query finds the carts whose \<open>dateUpdated\<close> is a date before the cutoff and
  a removal fails for the ids listed in \<open>failing\<close> and deletes the cart otherwise.
\<close>

definition echo_updateById :: "jsval \<Rightarrow> update_cmd \<Rightarrow> error + obj" where
  "echo_updateById i cmd = Inr (js_set (payload cmd) ''_id'' i)"

definition same_document :: "obj \<Rightarrow> obj" where
  "same_document doc = doc"

definition echo_services :: services where
  "echo_services = \<lparr>updateById = echo_updateById, transformDocuments = same_document\<rparr>"

definition reject_updateById :: "jsval \<Rightarrow> update_cmd \<Rightarrow> error + obj" where
  "reject_updateById i cmd = Inl (StorageError ''update failed'')"

definition rejecting_services :: services where
  "rejecting_services = \<lparr>updateById = reject_updateById, transformDocuments = same_document\<rparr>"

fun updated_before :: "nat \<Rightarrow> obj \<Rightarrow> bool" where
  "updated_before d cart = (case js_get cart ''dateUpdated'' of Date t \<Rightarrow> t < d | _ \<Rightarrow> False)"

definition list_find :: "nat \<Rightarrow> obj list \<Rightarrow> error + obj list" where
  "list_find d s = Inr (filter (updated_before d) s)"

fun has_other_id :: "jsval \<Rightarrow> obj \<Rightarrow> bool" where
  "has_other_id i cart = (js_get cart ''_id'' \<noteq> i)"

definition list_remove :: "jsval list \<Rightarrow> jsval \<Rightarrow> obj list \<Rightarrow> (error + jsval) \<times> obj list" where
  "list_remove failing i s =
     (if i \<in> set failing then (Inl (StorageError ''remove failed''), s)
      else (Inr i, filter (has_other_id i) s))"

fun show_id :: "jsval \<Rightarrow> string" where
  "show_id (Str s) = CHR 0x22 # s @ [CHR 0x22]"
| "show_id _ = ''null''"

text \<open>Three carts, the world before a request, and stand-ins for the two methods of
  methods/core.methods that \<open>add\<close> calls: one adds no requirements, the other reports
  the product and the amount it is asked to merge.\<close>

definition cart0 :: obj where
  "cart0 = [(''_id'', Str ''c1''), (''user'', Str ''u1''), (''ip'', Str ''10.0.0.1''),
            (''hash'', Str ''h''), (''dateUpdated'', Date 10),
            (''items'', Items [\<lparr>item_id = ''abc'', amount = Double 2, requirements = None\<rparr>,
                              \<lparr>item_id = ''def'', amount = Double 5, requirements = Some [(''size'', ''L'')]\<rparr>])]"

definition empty_cart0 :: obj where
  "empty_cart0 = [(''_id'', Str ''c2''), (''hash'', Str ''h2''), (''dateUpdated'', Date 10),
                  (''items'', Items [])]"

definition big_cart :: obj where
  "big_cart = [(''_id'', Str ''c3''), (''dateUpdated'', Date 10),
               (''items'', Items [\<lparr>item_id = ''big'', amount = Double 10000000000000000,
                                   requirements = None\<rparr>])]"

definition world0 :: world where
  "world0 = \<lparr>meta_cart = NoCart, written = [], emitted = []\<rparr>"

definition no_requirements :: "add_params \<Rightarrow> available \<Rightarrow> available" where
  "no_requirements params productAvailable = productAvailable"

definition report_merge :: "add_params \<Rightarrow> available \<Rightarrow> error + (available \<times> rat)" where
  "report_merge params productAvailable = Inr (productAvailable, add_amount params)"

text \<open>A stored cart and two answers of \<open>cart.find\<close>: the flat array of one document,
  and the same array nested in another.\<close>

definition stored_cart :: obj where
  "stored_cart = [(''_id'', Str ''c9''), (''hash'', Str ''h9''), (''dateUpdated'', Date 3),
                  (''items'', Items [\<lparr>item_id = ''abc'', amount = Double 1, requirements = None\<rparr>])]"

definition flat_find :: "string option \<Rightarrow> error + shape" where
  "flat_find cartCookie = Inr (Arr [Doc stored_cart])"

definition nested_find :: "string option \<Rightarrow> error + shape" where
  "nested_find cartCookie = Inr (Arr [Arr [Doc stored_cart]])"

text \<open>A storage of four carts: three last updated before the cutoff 10, one after.\<close>

definition old_carts :: "obj list" where
  "old_carts = [[(''_id'', Str ''a''), (''dateUpdated'', Date 1)],
                [(''_id'', Str ''b''), (''dateUpdated'', Date 2)],
                [(''_id'', Str ''c''), (''dateUpdated'', Date 3)],
                [(''_id'', Str ''d''), (''dateUpdated'', Date 50)]]"

section \<open>Properties\<close>

subsection \<open>Objects\<close>

lemma js_get_js_set: "js_get (js_set ob k v) k' = (if k' = k then v else js_get ob k')"
  by (simp add: js_get_def js_set_def update_conv')

lemma hasOwnProperty_js_set:
  "hasOwnProperty (js_set ob k v) k' = (k' = k \<or> hasOwnProperty ob k')"
  by (simp add: hasOwnProperty_def js_set_def update_conv')

lemma js_get_js_delete: "js_get (js_delete ob k) k' = (if k' = k then Undefined else js_get ob k')"
  by (simp add: js_get_def js_delete_def delete_conv')

lemma hasOwnProperty_js_delete:
  "hasOwnProperty (js_delete ob k) k' = (k' \<noteq> k \<and> hasOwnProperty ob k')"
  by (simp add: hasOwnProperty_def js_delete_def delete_conv')

subsection \<open>prepareForUpdate\<close>

text \<open>
  C9, as stated: for every cart object, the payload of \<open>prepareForUpdate\<close> holds every
  field of the input except \<open>_id\<close>, which is stripped. The code strips \<open>_id\<close> only
  behind the guard \<open>objectToSave._id\<close>: an identity that is falsy (here the number 0;
  likewise null, the empty string, false) stays in the payload.
\<close>

theorem prepareForUpdate_keeps_falsy_id:
  "prepareForUpdate [(''_id'', Num 0), (''hash'', Str ''h'')]
     = Set [(''_id'', Num 0), (''hash'', Str ''h'')]
   \<and> hasOwnProperty (payload (prepareForUpdate [(''_id'', Num 0), (''hash'', Str ''h'')])) ''_id''"
  by (simp add: prepareForUpdate_def js_get_def hasOwnProperty_def)

text \<open>
  C9, amended: the payload holds every field of the input other than \<open>_id\<close>, with its
  value; \<open>_id\<close> is stripped whenever it is set to a truthy value, and left in the
  payload as it is when it is falsy.
\<close>

theorem prepareForUpdate_strips_truthy_id:
  "(\<forall>k. k \<noteq> ''_id'' \<longrightarrow>
       hasOwnProperty (payload (prepareForUpdate object)) k = hasOwnProperty object k
     \<and> js_get (payload (prepareForUpdate object)) k = js_get object k)
   \<and> (truthy (js_get object ''_id'') \<longrightarrow>
        \<not> hasOwnProperty (payload (prepareForUpdate object)) ''_id'')
   \<and> (\<not> truthy (js_get object ''_id'') \<longrightarrow> payload (prepareForUpdate object) = object)"
  by (auto simp add: prepareForUpdate_def Let_def js_get_js_delete hasOwnProperty_js_delete)

theorem prepareForUpdate_strips_truthy_id_witness:
  "truthy (js_get [(''_id'', Str ''c1''), (''hash'', Str ''h'')] ''_id'')
   \<and> \<not> hasOwnProperty (payload (prepareForUpdate [(''_id'', Str ''c1''), (''hash'', Str ''h'')])) ''_id''
   \<and> js_get (payload (prepareForUpdate [(''_id'', Str ''c1''), (''hash'', Str ''h'')])) ''hash''
       = Str ''h''"
  using prepareForUpdate_strips_truthy_id [of "[(''_id'', Str ''c1''), (''hash'', Str ''h'')]"]
  by (simp add: js_get_def)

subsection \<open>The shared tail\<close>

lemma save_cart_world:
  "meta_cart (snd (save_cart sv event cart w)) = Cart cart
   \<and> written (snd (save_cart sv event cart w))
       = written w @ [(js_get cart ''_id'', prepareForUpdate cart)]"
  by (simp add: save_cart_def Let_def split: sum.split)

lemma save_cart_result:
  "fst (save_cart sv event cart w)
     = (case updateById sv (js_get cart ''_id'') (prepareForUpdate cart) of
          Inl err \<Rightarrow> Inl err
        | Inr doc \<Rightarrow> Inr (Some (transformDocuments sv doc)))"
  by (simp add: save_cart_def Let_def split: sum.split)

lemma save_cart_emitted:
  "emitted (snd (save_cart sv event cart w))
     = (case updateById sv (js_get cart ''_id'') (prepareForUpdate cart) of
          Inl err \<Rightarrow> emitted w
        | Inr doc \<Rightarrow> emitted w @ [(event, transformDocuments sv doc)])"
  by (simp add: save_cart_def Let_def split: sum.split)

subsection \<open>The search for a line\<close>

text \<open>The loop returns -1 or the index of the first line whose \<open>_id\<close> is the one
  asked for.\<close>

lemma find_from_bounds:
  "find_from i xs k = - 1 \<or> (i \<le> find_from i xs k \<and> find_from i xs k < i + int (length xs))"
  by (induction xs arbitrary: i) (auto, force+)

lemma find_from_hit:
  "0 \<le> i \<Longrightarrow> find_from i xs k = i + int j \<Longrightarrow>
     j < length xs \<and> item_id (xs ! j) = k \<and> (\<forall>m<j. item_id (xs ! m) \<noteq> k)"
proof (induction xs arbitrary: i j)
  case Nil
  then show ?case by simp
next
  case (Cons x xs)
  show ?case
  proof (cases "item_id x = k")
    case True
    with Cons.prems show ?thesis by simp
  next
    case False
    with Cons.prems have f: "find_from (i + 1) xs k = i + int j" by simp
    from find_from_bounds [of "i + 1" xs k] f Cons.prems(1) have "j \<noteq> 0"
      by (cases j) auto
    then obtain j' where j: "j = Suc j'" by (cases j) auto
    with f have "find_from (i + 1) xs k = (i + 1) + int j'" by simp
    with Cons.IH [of "i + 1" j'] Cons.prems(1)
    have "j' < length xs \<and> item_id (xs ! j') = k \<and> (\<forall>m<j'. item_id (xs ! m) \<noteq> k)" by simp
    with j False show ?thesis by (auto simp add: less_Suc_eq_0_disj)
  qed
qed

lemma find_from_miss:
  "0 \<le> i \<Longrightarrow> (find_from i xs k = - 1) = (k \<notin> item_id ` set xs)"
proof (induction xs arbitrary: i)
  case Nil
  then show ?case by simp
next
  case (Cons x xs)
  from find_from_bounds [of "i + 1" xs k] Cons.prems
  show ?case using Cons.IH [of "i + 1"] Cons.prems by auto
qed

lemma find_from_first:
  "j < length xs \<Longrightarrow> item_id (xs ! j) = k \<Longrightarrow> \<forall>m<j. item_id (xs ! m) \<noteq> k \<Longrightarrow>
     find_from i xs k = i + int j"
proof (induction xs arbitrary: i j)
  case Nil
  then show ?case by simp
next
  case (Cons x xs)
  show ?case
  proof (cases j)
    case 0
    with Cons.prems show ?thesis by simp
  next
    case (Suc j')
    with Cons.prems have x: "item_id x \<noteq> k" by auto
    from Suc Cons.prems have "j' < length xs" "item_id (xs ! j') = k"
      "\<forall>m<j'. item_id (xs ! m) \<noteq> k" by auto
    then have "find_from (i + 1) xs k = (i + 1) + int j'" by (rule Cons.IH)
    with x Suc show ?thesis by simp
  qed
qed

lemma findProductInCart_found:
  "findProductInCart xs k = int i \<Longrightarrow>
     i < length xs \<and> item_id (xs ! i) = k \<and> (\<forall>m<i. item_id (xs ! m) \<noteq> k)"
  using find_from_hit [of 0 xs k i] by (simp add: findProductInCart_def)

lemma findProductInCart_first:
  "i < length xs \<Longrightarrow> item_id (xs ! i) = k \<Longrightarrow> \<forall>m<i. item_id (xs ! m) \<noteq> k \<Longrightarrow>
     findProductInCart xs k = int i"
  using find_from_first [of i xs k 0] by (simp add: findProductInCart_def)

lemma findProductInCart_none: "k \<notin> item_id ` set xs \<Longrightarrow> findProductInCart xs k = - 1"
  using find_from_miss [of 0 xs k] by (simp add: findProductInCart_def)

lemma findProductInCart_cases:
  "findProductInCart xs k = - 1 \<or> (\<exists>i. findProductInCart xs k = int i)"
  using find_from_bounds [of 0 xs k]
  by (auto simp add: findProductInCart_def intro: exI [of _ "nat (find_from 0 xs k)"])

lemma set_line_amount_positive:
  assumes "0 < a" and "i < length xs"
  shows "set_line_amount (Given a) i xs
           = Inr (case requirements (xs ! i) of
                    None \<Rightarrow> xs[i := (xs ! i)\<lparr>amount := Double a\<rparr>]
                  | Some rs \<Rightarrow> if rs \<noteq> [] then xs[i := (xs ! i)\<lparr>amount := Double 1\<rparr>]
                               else xs[i := (xs ! i)\<lparr>amount := Double a\<rparr>])"
  using assms by (simp add: set_line_amount_def Let_def split: option.split)

lemma set_line_amount_null: "set_line_amount IsNull i xs = Inr xs"
  by (simp add: set_line_amount_def)

lemma default_amount:
  assumes "mutation_params_ok params"
  shows "(\<exists>a. (case amount_param params of NotGiven \<Rightarrow> Given 1 | given \<Rightarrow> given) = Given a \<and> 0 < a)
         \<or> (case amount_param params of NotGiven \<Rightarrow> Given 1 | given \<Rightarrow> given) = IsNull"
  using assms by (auto simp add: mutation_params_ok_def split: param.splits)

subsection \<open>Numbers\<close>

text \<open>Zero is a double, so a number minus itself is zero. The other lemmas run the
  rounding: an exact difference, a tie that goes to the even significand (doubles from
  \<open>2^53\<close> on are the even integers; 1e16 - 1 lies midway between two of them), and
  1 - 0.1 on the doubles nearest to 0.1 and 0.9.\<close>

lemma js_minus_self: "js_minus (Double x) (Double x) = Double 0"
  by (simp add: round_double_def)

lemma five_minus_two: "js_minus (Double 5) (Double 2) = Double 3"
  by code_simp

lemma two_minus_two: "js_minus (Double 2) (Double 2) = Double 0"
  by (rule js_minus_self)

lemma ten_to_16_minus_one:
  "js_minus (Double 10000000000000000) (Double 1) = Double 10000000000000000"
  by code_simp

lemma tie_to_even:
  "round_double (2 ^ 53 + 1) = Double (2 ^ 53)"
  "round_double (2 ^ 53 + 3) = Double (2 ^ 53 + 4)"
  by code_simp+

lemma one_minus_tenth:
  "js_minus (Double 1) (Double (3602879701896397 / 36028797018963968))
     = Double (8106479329266893 / 9007199254740992)"
  by code_simp

subsection \<open>actions.delete\<close>

text \<open>
  C5, as stated: where a positive amount is supplied, the line's amount is decreased by
  that amount. The subtraction of line 246 is one of doubles and rounds: on a line at
  10000000000000000 (1e16), a delete with the amount 1 leaves the line at
  10000000000000000, not at 9999999999999999.
\<close>

theorem delete_amount_rounds:
  "snd (delete echo_services 20 \<lparr>itemId = Given ''big'', amount_param = Given 1\<rparr> (Cart big_cart) world0)
     = \<lparr>meta_cart = Cart
          [(''_id'', Str ''c3''), (''dateUpdated'', Date 20),
           (''items'', Items [\<lparr>item_id = ''big'', amount = Double 10000000000000000,
                               requirements = None\<rparr>])],
        written =
          [(Str ''c3'', Set
             [(''dateUpdated'', Date 20),
              (''items'', Items [\<lparr>item_id = ''big'', amount = Double 10000000000000000,
                                  requirements = None\<rparr>])])],
        emitted =
          [(''removed'',
            [(''dateUpdated'', Date 20),
             (''items'', Items [\<lparr>item_id = ''big'', amount = Double 10000000000000000,
                                 requirements = None\<rparr>]),
             (''_id'', Str ''c3'')])]\<rparr>
   \<and> Double 10000000000000000 \<noteq> Double (10000000000000000 - 1)"
  by (simp add: delete_def findProductInCart_def big_cart_def world0_def has_items_def js_get_def
      js_set_def js_delete_def save_cart_def prepareForUpdate_def echo_services_def
      echo_updateById_def same_document_def delete_line_def ten_to_16_minus_one Let_def
      del: js_minus.simps)

text \<open>
  C5, amended: a \<open>delete\<close> on a non-empty cart that locates the line for the given
  \<open>itemId\<close> (\<open>i\<close> is the first line with that \<open>_id\<close>): if a positive amount is
  supplied, the line's amount becomes the double difference of the two (the double
  nearest to the exact difference), and the line is removed when that result is at most
  0; in particular an amount equal to the line's removes it. If no amount is supplied
  (or null) the line is removed whatever its amount. The other lines are unchanged: the
  new items are the old ones with line \<open>i\<close> taken out, or with line \<open>i\<close> replaced by
  itself at the new amount.
\<close>

theorem delete_found_line:
  assumes "first_cart r = Some cart"
    and "js_get cart ''items'' = Items xs"
    and "itemId params = Given k" and "k \<noteq> []"
    and "i < length xs" and "item_id (xs ! i) = k" and "\<forall>m<i. item_id (xs ! m) \<noteq> k"
  shows "\<exists>cart'. meta_cart (snd (delete sv now params r w)) = Cart cart'
           \<and> (\<forall>a. amount_param params = Given a \<and> 0 < a \<longrightarrow>
                 js_get cart' ''items''
                   = Items (if le_zero (js_minus (amount (xs ! i)) (Double a))
                            then take i xs @ drop (Suc i) xs
                            else xs[i := (xs ! i)\<lparr>amount := js_minus (amount (xs ! i)) (Double a)\<rparr>]))
           \<and> (\<forall>a. amount_param params = Given a \<and> 0 < a \<and> amount (xs ! i) = Double a \<longrightarrow>
                 js_get cart' ''items'' = Items (take i xs @ drop (Suc i) xs))
           \<and> (amount_param params = NotGiven \<or> amount_param params = IsNull \<longrightarrow>
                 js_get cart' ''items'' = Items (take i xs @ drop (Suc i) xs))"
proof -
  from assms(5) have i: "i < length xs" and ne: "xs \<noteq> []" by auto
  from assms(5,6,7) have f: "findProductInCart xs k = int i" by (rule findProductInCart_first)
  let ?ys = "delete_line (amount_param params) i xs"
  let ?c = "js_set (js_set cart ''items'' (Items ?ys)) ''dateUpdated'' (Date now)"
  from assms(1-4) f ne have d: "delete sv now params r w = save_cart sv ''removed'' ?c w"
    by (simp add: delete_def has_items_def Let_def)
  have a: "\<forall>a. amount_param params = Given a \<and> 0 < a \<longrightarrow>
             ?ys = (if le_zero (js_minus (amount (xs ! i)) (Double a))
                    then take i xs @ drop (Suc i) xs
                    else xs[i := (xs ! i)\<lparr>amount := js_minus (amount (xs ! i)) (Double a)\<rparr>])"
    using i by (auto simp add: delete_line_def Let_def splice1_def simp del: js_minus.simps)
  have e: "\<forall>a. amount_param params = Given a \<and> 0 < a \<and> amount (xs ! i) = Double a \<longrightarrow>
             ?ys = take i xs @ drop (Suc i) xs"
    using a by (auto simp add: js_minus_self simp del: js_minus.simps)
  have n: "amount_param params = NotGiven \<or> amount_param params = IsNull \<longrightarrow>
             ?ys = take i xs @ drop (Suc i) xs"
    by (auto simp add: delete_line_def splice1_def)
  have g: "js_get ?c ''items'' = Items ?ys" by (simp add: js_get_js_set)
  from d have m: "meta_cart (snd (delete sv now params r w)) = Cart ?c"
    by (simp add: save_cart_world)
  from a e n have "(\<forall>a. amount_param params = Given a \<and> 0 < a \<longrightarrow>
                 js_get ?c ''items''
                   = Items (if le_zero (js_minus (amount (xs ! i)) (Double a))
                            then take i xs @ drop (Suc i) xs
                            else xs[i := (xs ! i)\<lparr>amount := js_minus (amount (xs ! i)) (Double a)\<rparr>]))
           \<and> (\<forall>a. amount_param params = Given a \<and> 0 < a \<and> amount (xs ! i) = Double a \<longrightarrow>
                 js_get ?c ''items'' = Items (take i xs @ drop (Suc i) xs))
           \<and> (amount_param params = NotGiven \<or> amount_param params = IsNull \<longrightarrow>
                 js_get ?c ''items'' = Items (take i xs @ drop (Suc i) xs))"
    unfolding g by blast
  with m show ?thesis by blast
qed

theorem delete_found_line_witness:
  "(\<exists>cart'. meta_cart (snd (delete echo_services 20 \<lparr>itemId = Given ''abc'', amount_param = Given 2\<rparr>
                                (Cart cart0) world0)) = Cart cart'
       \<and> js_get cart' ''items''
           = Items [\<lparr>item_id = ''def'', amount = Double 5, requirements = Some [(''size'', ''L'')]\<rparr>])
   \<and> (\<exists>cart'. meta_cart (snd (delete echo_services 20 \<lparr>itemId = Given ''def'', amount_param = Given 2\<rparr>
                                (Cart cart0) world0)) = Cart cart'
       \<and> js_get cart' ''items''
           = Items [\<lparr>item_id = ''abc'', amount = Double 2, requirements = None\<rparr>,
                    \<lparr>item_id = ''def'', amount = Double 3, requirements = Some [(''size'', ''L'')]\<rparr>])
   \<and> (\<exists>cart'. meta_cart (snd (delete echo_services 20 \<lparr>itemId = Given ''def'', amount_param = NotGiven\<rparr>
                                (Cart cart0) world0)) = Cart cart'
       \<and> js_get cart' ''items''
           = Items [\<lparr>item_id = ''abc'', amount = Double 2, requirements = None\<rparr>])"
proof -
  let ?xs = "[\<lparr>item_id = ''abc'', amount = Double 2, requirements = None\<rparr>,
              \<lparr>item_id = ''def'', amount = Double 5, requirements = Some [(''size'', ''L'')]\<rparr>]"
  have c: "first_cart (Cart cart0) = Some cart0" by simp
  have it: "js_get cart0 ''items'' = Items ?xs" by (simp add: cart0_def js_get_def)
  have i0: "0 < length ?xs" "item_id (?xs ! 0) = ''abc''" "\<forall>m<0. item_id (?xs ! m) \<noteq> ''abc''"
    by simp_all
  have i1: "1 < length ?xs" "item_id (?xs ! 1) = ''def''" "\<forall>m<1. item_id (?xs ! m) \<noteq> ''def''"
    by simp_all
  have ne: "''abc'' \<noteq> []" "''def'' \<noteq> []" by simp_all
  show ?thesis
    using delete_found_line [OF c it _ ne(1) i0,
            of "\<lparr>itemId = Given ''abc'', amount_param = Given 2\<rparr>" echo_services 20 world0]
          delete_found_line [OF c it _ ne(2) i1,
            of "\<lparr>itemId = Given ''def'', amount_param = Given 2\<rparr>" echo_services 20 world0]
          delete_found_line [OF c it _ ne(2) i1,
            of "\<lparr>itemId = Given ''def'', amount_param = NotGiven\<rparr>" echo_services 20 world0]
    by (simp add: five_minus_two two_minus_two del: js_minus.simps)
qed

text \<open>
  C7, as stated: a \<open>delete\<close> on a non-empty cart with an \<open>itemId\<close> that matches no
  line leaves the cart state unmodified. The items are left as they are, but the code
  goes on to \<open>cart.dateUpdated = new Date()\<close> and the shared tail: on the cart below,
  last updated at 10, a delete of the unknown line \<open>xyz\<close> at time 20 leaves the cart with
  \<open>dateUpdated\<close> 20, writes it to the storage and, the storage having answered, sends
  the "removed" notification.
\<close>

theorem delete_unknown_item_touches_cart:
  "findProductInCart (lines (js_get cart0 ''items'')) ''xyz'' = - 1
   \<and> js_get cart0 ''dateUpdated'' = Date 10
   \<and> snd (delete echo_services 20 \<lparr>itemId = Given ''xyz'', amount_param = NotGiven\<rparr> (Cart cart0) world0)
       = \<lparr>meta_cart = Cart
            [(''_id'', Str ''c1''), (''user'', Str ''u1''), (''ip'', Str ''10.0.0.1''),
             (''hash'', Str ''h''), (''dateUpdated'', Date 20),
             (''items'', Items [\<lparr>item_id = ''abc'', amount = Double 2, requirements = None\<rparr>,
                               \<lparr>item_id = ''def'', amount = Double 5,
                                requirements = Some [(''size'', ''L'')]\<rparr>])],
          written =
            [(Str ''c1'', Set
               [(''user'', Str ''u1''), (''ip'', Str ''10.0.0.1''),
                (''hash'', Str ''h''), (''dateUpdated'', Date 20),
                (''items'', Items [\<lparr>item_id = ''abc'', amount = Double 2, requirements = None\<rparr>,
                                  \<lparr>item_id = ''def'', amount = Double 5,
                                   requirements = Some [(''size'', ''L'')]\<rparr>])])],
          emitted =
            [(''removed'',
              [(''user'', Str ''u1''), (''ip'', Str ''10.0.0.1''),
               (''hash'', Str ''h''), (''dateUpdated'', Date 20),
               (''items'', Items [\<lparr>item_id = ''abc'', amount = Double 2, requirements = None\<rparr>,
                                 \<lparr>item_id = ''def'', amount = Double 5,
                                  requirements = Some [(''size'', ''L'')]\<rparr>]),
               (''_id'', Str ''c1'')])]\<rparr>
   \<and> snd (delete echo_services 20 \<lparr>itemId = Given ''xyz'', amount_param = NotGiven\<rparr> (Cart cart0) world0)
       \<noteq> world0"
  by (simp add: delete_def findProductInCart_def cart0_def world0_def has_items_def js_get_def
      js_set_def js_delete_def save_cart_def prepareForUpdate_def echo_services_def
      echo_updateById_def same_document_def Let_def)

text \<open>
  C7, amended: a \<open>delete\<close> on a non-empty cart with an \<open>itemId\<close> that matches no
  line changes no line and raises no error of its own: the items sequence is unchanged,
  \<open>dateUpdated\<close> is refreshed to the time of the call, the cart is bound to the request
  and written to the storage. When the storage answers the write, the action resolves to
  that answer and one "removed" notification carrying it is sent; when the storage
  rejects the write, the action is rejected with that error and no notification is sent.
\<close>

theorem delete_unknown_item:
  assumes "first_cart r = Some cart"
    and "js_get cart ''items'' = Items xs" and "xs \<noteq> []"
    and "itemId params = Given k" and "k \<noteq> []"
    and "k \<notin> item_id ` set xs"
  shows "meta_cart (snd (delete sv now params r w)) = Cart (js_set cart ''dateUpdated'' (Date now))
         \<and> js_get (js_set cart ''dateUpdated'' (Date now)) ''items'' = Items xs
         \<and> js_get (js_set cart ''dateUpdated'' (Date now)) ''dateUpdated'' = Date now
         \<and> written (snd (delete sv now params r w))
             = written w @ [(js_get cart ''_id'',
                             prepareForUpdate (js_set cart ''dateUpdated'' (Date now)))]
         \<and> fst (delete sv now params r w)
             = (case updateById sv (js_get cart ''_id'')
                       (prepareForUpdate (js_set cart ''dateUpdated'' (Date now))) of
                  Inl err \<Rightarrow> Inl err
                | Inr doc \<Rightarrow> Inr (Some (transformDocuments sv doc)))
         \<and> emitted (snd (delete sv now params r w))
             = (case updateById sv (js_get cart ''_id'')
                       (prepareForUpdate (js_set cart ''dateUpdated'' (Date now))) of
                  Inl err \<Rightarrow> emitted w
                | Inr doc \<Rightarrow> emitted w @ [(''removed'', transformDocuments sv doc)])"
proof -
  let ?c = "js_set cart ''dateUpdated'' (Date now)"
  from assms(6) have f: "findProductInCart xs k = - 1" by (rule findProductInCart_none)
  from assms(1-5) f have d: "delete sv now params r w = save_cart sv ''removed'' ?c w"
    by (simp add: delete_def has_items_def Let_def)
  have id: "js_get ?c ''_id'' = js_get cart ''_id''" by (simp add: js_get_js_set)
  from d id assms(2) show ?thesis
    by (simp add: save_cart_world save_cart_result save_cart_emitted js_get_js_set)
qed

theorem delete_unknown_item_witness:
  "js_get cart0 ''items''
     = Items [\<lparr>item_id = ''abc'', amount = Double 2, requirements = None\<rparr>,
              \<lparr>item_id = ''def'', amount = Double 5, requirements = Some [(''size'', ''L'')]\<rparr>]
   \<and> meta_cart (snd (delete echo_services 20 \<lparr>itemId = Given ''xyz'', amount_param = Given 1\<rparr>
                        (Cart cart0) world0))
       = Cart (js_set cart0 ''dateUpdated'' (Date 20))
   \<and> js_get (js_set cart0 ''dateUpdated'' (Date 20)) ''items'' = js_get cart0 ''items''
   \<and> written (snd (delete echo_services 20 \<lparr>itemId = Given ''xyz'', amount_param = Given 1\<rparr>
                      (Cart cart0) world0))
       = [(Str ''c1'', prepareForUpdate (js_set cart0 ''dateUpdated'' (Date 20)))]
   \<and> length (emitted (snd (delete echo_services 20 \<lparr>itemId = Given ''xyz'', amount_param = Given 1\<rparr>
                              (Cart cart0) world0))) = 1
   \<and> emitted (snd (delete rejecting_services 20 \<lparr>itemId = Given ''xyz'', amount_param = Given 1\<rparr>
                      (Cart cart0) world0)) = []
   \<and> fst (delete rejecting_services 20 \<lparr>itemId = Given ''xyz'', amount_param = Given 1\<rparr>
             (Cart cart0) world0) = Inl (StorageError ''update failed'')"
proof -
  let ?xs = "[\<lparr>item_id = ''abc'', amount = Double 2, requirements = None\<rparr>,
              \<lparr>item_id = ''def'', amount = Double 5, requirements = Some [(''size'', ''L'')]\<rparr>]"
  have c: "first_cart (Cart cart0) = Some cart0" by simp
  have it: "js_get cart0 ''items'' = Items ?xs" by (simp add: cart0_def js_get_def)
  have xs: "?xs \<noteq> []" by simp
  have k: "itemId \<lparr>itemId = Given ''xyz'', amount_param = Given 1\<rparr> = Given ''xyz''" by simp
  have ne: "''xyz'' \<noteq> []" by simp
  have f: "''xyz'' \<notin> item_id ` set ?xs" by simp
  have i: "js_get cart0 ''_id'' = Str ''c1''" by (simp add: cart0_def js_get_def)
  show ?thesis
    using it i delete_unknown_item [OF c it xs k ne f, of echo_services 20 world0]
      delete_unknown_item [OF c it xs k ne f, of rejecting_services 20 world0]
    by (simp add: world0_def echo_services_def echo_updateById_def rejecting_services_def
        reject_updateById_def)
qed

text \<open>
  C8: where the items of the resolved cart are empty or absent, \<open>delete\<close> and
  \<open>updateCartItemAmount\<close> return undefined and leave the world as it was: nothing is
  written to the storage, and no error is raised.
\<close>

theorem empty_cart_untouched:
  assumes "first_cart r = Some cart"
    and "js_get cart ''items'' = Items [] \<or> js_get cart ''items'' = Undefined"
  shows "delete sv now params r w = (Inr None, w)
         \<and> updateCartItemAmount sv now params r w = (Inr None, w)"
  using assms by (auto simp add: delete_def updateCartItemAmount_def has_items_def)

theorem empty_cart_untouched_witness:
  "first_cart (Cart empty_cart0) = Some empty_cart0
   \<and> js_get empty_cart0 ''items'' = Items []
   \<and> delete echo_services 20 \<lparr>itemId = Given ''abc'', amount_param = NotGiven\<rparr> (Cart empty_cart0) world0
       = (Inr None, world0)
   \<and> updateCartItemAmount echo_services 20 \<lparr>itemId = Given ''abc'', amount_param = Given 3\<rparr>
       (Cart empty_cart0) world0 = (Inr None, world0)
   \<and> written world0 = []"
proof -
  have c: "first_cart (Cart empty_cart0) = Some empty_cart0" by simp
  have it: "js_get empty_cart0 ''items'' = Items []" by (simp add: empty_cart0_def js_get_def)
  from it have it': "js_get empty_cart0 ''items'' = Items [] \<or> js_get empty_cart0 ''items'' = Undefined"
    by simp
  show ?thesis
    using c it
      empty_cart_untouched [OF c it', of echo_services 20
        "\<lparr>itemId = Given ''abc'', amount_param = NotGiven\<rparr>" world0]
      empty_cart_untouched [OF c it', of echo_services 20
        "\<lparr>itemId = Given ''abc'', amount_param = Given 3\<rparr>" world0]
    by (simp add: world0_def)
qed

subsection \<open>actions.updateCartItemAmount\<close>

text \<open>
  C4, as stated: a call that locates a line with non-empty \<open>requirements\<close> leaves it at
  the amount 1, whatever amount is requested. The schema's \<open>optional\<close> lets the amount
  null through; line 290 replaces only an undefined amount, and null fails the test of
  line 310, so the pin of lines 318-320 is not reached: the line \<open>def\<close> below, which has
  requirements, keeps its amount 5.
\<close>

theorem updateCartItemAmount_null_amount_keeps_line:
  "mutation_params_ok \<lparr>itemId = Given ''def'', amount_param = IsNull\<rparr>
   \<and> snd (updateCartItemAmount echo_services 20 \<lparr>itemId = Given ''def'', amount_param = IsNull\<rparr>
            (Cart cart0) world0)
       = \<lparr>meta_cart = Cart
            [(''_id'', Str ''c1''), (''user'', Str ''u1''), (''ip'', Str ''10.0.0.1''),
             (''hash'', Str ''h''), (''dateUpdated'', Date 20),
             (''items'', Items [\<lparr>item_id = ''abc'', amount = Double 2, requirements = None\<rparr>,
                               \<lparr>item_id = ''def'', amount = Double 5,
                                requirements = Some [(''size'', ''L'')]\<rparr>])],
          written =
            [(Str ''c1'', Set
               [(''user'', Str ''u1''), (''ip'', Str ''10.0.0.1''),
                (''hash'', Str ''h''), (''dateUpdated'', Date 20),
                (''items'', Items [\<lparr>item_id = ''abc'', amount = Double 2, requirements = None\<rparr>,
                                  \<lparr>item_id = ''def'', amount = Double 5,
                                   requirements = Some [(''size'', ''L'')]\<rparr>])])],
          emitted =
            [(''updated'',
              [(''user'', Str ''u1''), (''ip'', Str ''10.0.0.1''),
               (''hash'', Str ''h''), (''dateUpdated'', Date 20),
               (''items'', Items [\<lparr>item_id = ''abc'', amount = Double 2, requirements = None\<rparr>,
                                 \<lparr>item_id = ''def'', amount = Double 5,
                                  requirements = Some [(''size'', ''L'')]\<rparr>]),
               (''_id'', Str ''c1'')])]\<rparr>"
  by (simp add: updateCartItemAmount_def mutation_params_ok_def findProductInCart_def cart0_def
      world0_def has_items_def js_get_def js_set_def js_delete_def save_cart_def
      prepareForUpdate_def echo_services_def echo_updateById_def same_document_def
      set_line_amount_def Let_def)

text \<open>
  C4, amended: an \<open>updateCartItemAmount\<close> that locates a line (\<open>i\<close> is the first line
  with the \<open>_id\<close> asked for) with non-empty \<open>requirements\<close>: when the amount is not
  supplied or is a positive number, the line is left at the amount 1, whatever the number
  requested, and the other lines are unchanged; when the amount is null, no line is
  changed, so the line keeps the amount it had.
\<close>

theorem updateCartItemAmount_requirements_pin:
  assumes "first_cart r = Some cart"
    and "js_get cart ''items'' = Items xs"
    and "itemId params = Given k" and "k \<noteq> []"
    and "i < length xs" and "item_id (xs ! i) = k" and "\<forall>m<i. item_id (xs ! m) \<noteq> k"
    and "requirements (xs ! i) = Some rs" and "rs \<noteq> []"
  shows "\<exists>cart' ys. meta_cart (snd (updateCartItemAmount sv now params r w)) = Cart cart'
           \<and> js_get cart' ''items'' = Items ys
           \<and> (amount_param params = NotGiven \<or> (\<exists>a. amount_param params = Given a \<and> 0 < a)
                \<longrightarrow> ys = xs[i := (xs ! i)\<lparr>amount := Double 1\<rparr>] \<and> amount (ys ! i) = Double 1)
           \<and> (amount_param params = IsNull \<longrightarrow> ys = xs)"
proof -
  from assms(5) have i: "i < length xs" and ne: "xs \<noteq> []" by auto
  from assms(5,6,7) have f: "findProductInCart xs k = int i" by (rule findProductInCart_first)
  define amount1 where
    "amount1 = (case amount_param params of NotGiven \<Rightarrow> Given 1 | given \<Rightarrow> given)"
  define ys where "ys = (case set_line_amount amount1 i xs of Inr zs \<Rightarrow> zs | Inl err \<Rightarrow> xs)"
  let ?c = "js_set (js_set cart ''items'' (Items ys)) ''dateUpdated'' (Date now)"
  have pin: "set_line_amount amount1 i xs = Inr (xs[i := (xs ! i)\<lparr>amount := Double 1\<rparr>])"
    if "amount_param params = NotGiven \<or> (\<exists>a. amount_param params = Given a \<and> 0 < a)"
  proof -
    from that obtain a where "amount1 = Given a" "0 < a"
      by (auto simp add: amount1_def)
    with assms(8,9) i show ?thesis by (simp add: set_line_amount_positive)
  qed
  have null: "set_line_amount amount1 i xs = Inr xs" if "amount_param params = IsNull"
    using that by (simp add: amount1_def set_line_amount_null)
  have total: "\<exists>zs. set_line_amount amount1 i xs = Inr zs"
  proof (cases "amount_positive amount1")
    case True
    then obtain a where "amount1 = Given a" "0 < a" by (cases amount1) auto
    with i show ?thesis by (simp add: set_line_amount_positive)
  next
    case False
    then show ?thesis by (simp add: set_line_amount_def)
  qed
  then have s: "set_line_amount amount1 i xs = Inr ys" by (auto simp add: ys_def)
  from assms(1-4) f ne s
  have "updateCartItemAmount sv now params r w = save_cart sv ''updated'' ?c w"
    by (simp add: updateCartItemAmount_def has_items_def Let_def amount1_def)
  then have m: "meta_cart (snd (updateCartItemAmount sv now params r w)) = Cart ?c"
    by (simp add: save_cart_world)
  have g: "js_get ?c ''items'' = Items ys" by (simp add: js_get_js_set)
  have p1: "amount_param params = NotGiven \<or> (\<exists>a. amount_param params = Given a \<and> 0 < a)
              \<longrightarrow> ys = xs[i := (xs ! i)\<lparr>amount := Double 1\<rparr>] \<and> amount (ys ! i) = Double 1"
    using pin s i by auto
  have p2: "amount_param params = IsNull \<longrightarrow> ys = xs"
    using null s by auto
  from m g p1 p2 show ?thesis by blast
qed

theorem updateCartItemAmount_requirements_pin_witness:
  "(\<exists>cart' ys.
      meta_cart (snd (updateCartItemAmount echo_services 20
                        \<lparr>itemId = Given ''def'', amount_param = Given 7\<rparr> (Cart cart0) world0))
        = Cart cart'
      \<and> js_get cart' ''items'' = Items ys
      \<and> ys = [\<lparr>item_id = ''abc'', amount = Double 2, requirements = None\<rparr>,
              \<lparr>item_id = ''def'', amount = Double 1, requirements = Some [(''size'', ''L'')]\<rparr>]
      \<and> amount (ys ! 1) = Double 1)
   \<and> (\<exists>cart' ys.
      meta_cart (snd (updateCartItemAmount echo_services 20
                        \<lparr>itemId = Given ''def'', amount_param = IsNull\<rparr> (Cart cart0) world0))
        = Cart cart'
      \<and> js_get cart' ''items'' = Items ys
      \<and> ys = [\<lparr>item_id = ''abc'', amount = Double 2, requirements = None\<rparr>,
              \<lparr>item_id = ''def'', amount = Double 5, requirements = Some [(''size'', ''L'')]\<rparr>])"
proof -
  let ?xs = "[\<lparr>item_id = ''abc'', amount = Double 2, requirements = None\<rparr>,
              \<lparr>item_id = ''def'', amount = Double 5, requirements = Some [(''size'', ''L'')]\<rparr>]"
  have c: "first_cart (Cart cart0) = Some cart0" by simp
  have it: "js_get cart0 ''items'' = Items ?xs" by (simp add: cart0_def js_get_def)
  have ne: "''def'' \<noteq> []" by simp
  have i1: "1 < length ?xs" "item_id (?xs ! 1) = ''def''" "\<forall>m<1. item_id (?xs ! m) \<noteq> ''def''"
    by simp_all
  have rq: "requirements (?xs ! 1) = Some [(''size'', ''L'')]" by simp
  have rs: "[(''size'', ''L'')] \<noteq> []" by simp
  show ?thesis
    using updateCartItemAmount_requirements_pin [OF c it _ ne i1 rq rs,
            of "\<lparr>itemId = Given ''def'', amount_param = Given 7\<rparr>" echo_services 20 world0]
          updateCartItemAmount_requirements_pin [OF c it _ ne i1 rq rs,
            of "\<lparr>itemId = Given ''def'', amount_param = IsNull\<rparr>" echo_services 20 world0]
    by simp
qed

text \<open>
  C10: under the schema of the action (an amount, when supplied, is a positive number,
  or null; a missing one becomes 1), \<open>updateCartItemAmount\<close> never removes a line: on an empty cart nothing
  happens, and on a non-empty one the items after the call are as many as before, with
  the same \<open>_id\<close>s in the same order. The branch that splices a line out at an amount of
  at most 0 is never taken.
\<close>

theorem updateCartItemAmount_keeps_lines:
  assumes "mutation_params_ok params"
    and "first_cart r = Some cart"
    and "js_get cart ''items'' = Items xs"
  shows "(xs = [] \<longrightarrow> updateCartItemAmount sv now params r w = (Inr None, w))
         \<and> (xs \<noteq> [] \<longrightarrow>
              (\<exists>cart' ys. meta_cart (snd (updateCartItemAmount sv now params r w)) = Cart cart'
                 \<and> js_get cart' ''items'' = Items ys
                 \<and> length ys = length xs
                 \<and> map item_id ys = map item_id xs))"
proof (intro conjI impI)
  assume "xs = []"
  with assms(2,3) show "updateCartItemAmount sv now params r w = (Inr None, w)"
    by (simp add: updateCartItemAmount_def has_items_def)
next
  assume ne: "xs \<noteq> []"
  define itemId1 where "itemId1 = (case itemId params of NotGiven \<Rightarrow> IsNull | given \<Rightarrow> given)"
  define amount1 where
    "amount1 = (case amount_param params of NotGiven \<Rightarrow> Given 1 | given \<Rightarrow> given)"
  from default_amount [OF assms(1)]
  have a: "(\<exists>a. amount1 = Given a \<and> 0 < a) \<or> amount1 = IsNull" by (simp add: amount1_def)
  let ?same = "js_set cart ''dateUpdated'' (Date now)"
  have same: "js_get ?same ''items'' = Items xs"
    using assms(3) by (simp add: js_get_js_set)
  show "\<exists>cart' ys. meta_cart (snd (updateCartItemAmount sv now params r w)) = Cart cart'
          \<and> js_get cart' ''items'' = Items ys
          \<and> length ys = length xs
          \<and> map item_id ys = map item_id xs"
  proof (cases "itemId_truthy itemId1 \<and> findProductInCart xs (the_given itemId1) > - 1")
    case False
    with assms(2,3) ne
    have "updateCartItemAmount sv now params r w = save_cart sv ''updated'' ?same w"
      by (auto simp add: updateCartItemAmount_def has_items_def Let_def itemId1_def)
    then have "meta_cart (snd (updateCartItemAmount sv now params r w)) = Cart ?same"
      by (simp add: save_cart_world)
    with same show ?thesis by blast
  next
    case True
    with findProductInCart_cases [of xs "the_given itemId1"] obtain i
      where f: "findProductInCart xs (the_given itemId1) = int i" by auto
    then have i: "i < length xs" by (simp add: findProductInCart_found)
    have "\<exists>ys. set_line_amount amount1 i xs = Inr ys \<and> length ys = length xs
            \<and> map item_id ys = map item_id xs"
    proof -
      from a show ?thesis
      proof
        assume "\<exists>a. amount1 = Given a \<and> 0 < a"
        then obtain a where a1: "amount1 = Given a" "0 < a" by blast
        define ys where
          "ys = (case requirements (xs ! i) of
                   None \<Rightarrow> xs[i := (xs ! i)\<lparr>amount := Double a\<rparr>]
                 | Some rs \<Rightarrow> if rs \<noteq> [] then xs[i := (xs ! i)\<lparr>amount := Double 1\<rparr>]
                              else xs[i := (xs ! i)\<lparr>amount := Double a\<rparr>])"
        from a1 i have "set_line_amount amount1 i xs = Inr ys"
          by (simp add: set_line_amount_positive ys_def)
        moreover have "length ys = length xs" by (simp add: ys_def split: option.split)
        moreover have "map item_id ys = map item_id xs"
          using i by (simp add: ys_def map_update list_update_same_conv split: option.split)
        ultimately show ?thesis by blast
      next
        assume "amount1 = IsNull"
        then show ?thesis by (simp add: set_line_amount_null)
      qed
    qed
    then obtain ys where s: "set_line_amount amount1 i xs = Inr ys"
      and len: "length ys = length xs" and ids: "map item_id ys = map item_id xs" by blast
    let ?c = "js_set (js_set cart ''items'' (Items ys)) ''dateUpdated'' (Date now)"
    from True f assms(2,3) ne s
    have "updateCartItemAmount sv now params r w = save_cart sv ''updated'' ?c w"
      by (simp add: updateCartItemAmount_def has_items_def Let_def itemId1_def amount1_def)
    then have "meta_cart (snd (updateCartItemAmount sv now params r w)) = Cart ?c"
      by (simp add: save_cart_world)
    moreover have "js_get ?c ''items'' = Items ys" by (simp add: js_get_js_set)
    ultimately show ?thesis using len ids by blast
  qed
qed

theorem updateCartItemAmount_keeps_lines_witness:
  "mutation_params_ok \<lparr>itemId = Given ''abc'', amount_param = Given (1 / 2)\<rparr>
   \<and> (\<exists>cart' ys.
         meta_cart (snd (updateCartItemAmount echo_services 20
                           \<lparr>itemId = Given ''abc'', amount_param = Given (1 / 2)\<rparr> (Cart cart0) world0))
           = Cart cart'
         \<and> js_get cart' ''items'' = Items ys
         \<and> length ys = 2
         \<and> map item_id ys = [''abc'', ''def''])"
proof -
  let ?xs = "[\<lparr>item_id = ''abc'', amount = Double 2, requirements = None\<rparr>,
              \<lparr>item_id = ''def'', amount = Double 5, requirements = Some [(''size'', ''L'')]\<rparr>]"
  let ?p = "\<lparr>itemId = Given ''abc'', amount_param = Given (1 / 2)\<rparr>"
  have ok: "mutation_params_ok ?p" by (simp add: mutation_params_ok_def)
  have c: "first_cart (Cart cart0) = Some cart0" by simp
  have it: "js_get cart0 ''items'' = Items ?xs" by (simp add: cart0_def js_get_def)
  show ?thesis
    using ok updateCartItemAmount_keeps_lines [OF ok c it, of echo_services 20 world0]
    by (simp add: numeral_2_eq_2)
qed

subsection \<open>actions.updateMyCart\<close>

lemma fold_overwrite_hasOwnProperty:
  "hasOwnProperty (fold (overwrite_property cartNew) ks cart) k = hasOwnProperty cart k"
  by (induction ks arbitrary: cart) (auto simp add: overwrite_property_def hasOwnProperty_js_set)

lemma fold_overwrite_js_get:
  "js_get (fold (overwrite_property cartNew) ks cart) k
     = (if k \<in> set ks \<and> hasOwnProperty cart k \<and> hasOwnProperty cartNew k
        then js_get cartNew k else js_get cart k)"
proof (induction ks arbitrary: cart)
  case Nil
  then show ?case by simp
next
  case (Cons x ks)
  define c where "c = overwrite_property cartNew x cart"
  have h: "hasOwnProperty c k = hasOwnProperty cart k"
    by (auto simp add: c_def overwrite_property_def hasOwnProperty_js_set)
  have g: "js_get c k = (if k = x \<and> hasOwnProperty cart k \<and> hasOwnProperty cartNew k
                         then js_get cartNew k else js_get cart k)"
    by (auto simp add: c_def overwrite_property_def js_get_js_set)
  have "js_get (fold (overwrite_property cartNew) (x # ks) cart) k
          = js_get (fold (overwrite_property cartNew) ks c) k"
    by (simp add: c_def)
  also have "\<dots> = (if k \<in> set ks \<and> hasOwnProperty c k \<and> hasOwnProperty cartNew k
                    then js_get cartNew k else js_get c k)"
    by (rule Cons.IH)
  also have "\<dots> = (if k \<in> set (x # ks) \<and> hasOwnProperty cart k \<and> hasOwnProperty cartNew k
                    then js_get cartNew k else js_get cart k)"
    unfolding h g by auto
  finally show ?case .
qed

lemma hasOwnProperty_key: "hasOwnProperty ob k \<Longrightarrow> k \<in> set (map fst ob)"
  by (auto simp add: hasOwnProperty_def map_of_eq_None_iff)

text \<open>
  C6: \<open>updateMyCart\<close> with the patch \<open>cartNew\<close> on the current cart: apart from
  \<open>dateUpdated\<close>, the cart afterwards has exactly the fields it had (none is added from
  the patch, none is dropped), a field that both the cart and the patch have holds the
  patch's value, every other field holds the cart's value; \<open>dateUpdated\<close> is the time of
  the call; and this cart is what is written to the storage.
\<close>

theorem updateMyCart_overwrites_shared_fields:
  assumes "first_cart r = Some cart"
  shows "\<exists>cart'. meta_cart (snd (updateMyCart sv now cartNew r w)) = Cart cart'
           \<and> (\<forall>k. k \<noteq> ''dateUpdated'' \<longrightarrow>
                 hasOwnProperty cart' k = hasOwnProperty cart k
                 \<and> js_get cart' k = (if hasOwnProperty cart k \<and> hasOwnProperty cartNew k
                                     then js_get cartNew k else js_get cart k))
           \<and> js_get cart' ''dateUpdated'' = Date now
           \<and> written (snd (updateMyCart sv now cartNew r w))
               = written w @ [(js_get cart' ''_id'', prepareForUpdate cart')]"
proof -
  let ?c1 = "fold (overwrite_property cartNew) (map fst cartNew) cart"
  let ?c = "js_set ?c1 ''dateUpdated'' (Date now)"
  from assms have u: "updateMyCart sv now cartNew r w = save_cart sv ''updated'' ?c w"
    by (simp add: updateMyCart_def Let_def)
  have f: "\<forall>k. k \<noteq> ''dateUpdated'' \<longrightarrow>
             hasOwnProperty ?c k = hasOwnProperty cart k
             \<and> js_get ?c k = (if hasOwnProperty cart k \<and> hasOwnProperty cartNew k
                              then js_get cartNew k else js_get cart k)"
    by (auto simp add: hasOwnProperty_js_set js_get_js_set fold_overwrite_hasOwnProperty
        fold_overwrite_js_get dest: hasOwnProperty_key)
  have d: "js_get ?c ''dateUpdated'' = Date now" by (simp add: js_get_js_set)
  from u have m: "meta_cart (snd (updateMyCart sv now cartNew r w)) = Cart ?c"
    and wr: "written (snd (updateMyCart sv now cartNew r w))
               = written w @ [(js_get ?c ''_id'', prepareForUpdate ?c)]"
    by (simp_all add: save_cart_world)
  from m f d wr show ?thesis by blast
qed

theorem updateMyCart_overwrites_shared_fields_witness:
  "\<exists>cart'. meta_cart (snd (updateMyCart echo_services 20 [(''user'', Str ''u2''), (''coupon'', Str ''x'')]
                             (Cart cart0) world0)) = Cart cart'
     \<and> js_get cart' ''user'' = Str ''u2''
     \<and> js_get cart' ''items'' = js_get cart0 ''items''
     \<and> js_get cart' ''hash'' = Str ''h''
     \<and> js_get cart' ''ip'' = Str ''10.0.0.1''
     \<and> \<not> hasOwnProperty cart' ''coupon''
     \<and> js_get cart' ''dateUpdated'' = Date 20"
proof -
  have c: "first_cart (Cart cart0) = Some cart0" by simp
  have k: "''user'' \<noteq> ''dateUpdated''" "''items'' \<noteq> ''dateUpdated''" "''hash'' \<noteq> ''dateUpdated''"
    "''ip'' \<noteq> ''dateUpdated''" "''coupon'' \<noteq> ''dateUpdated''" by simp_all
  from updateMyCart_overwrites_shared_fields [OF c,
         of echo_services 20 "[(''user'', Str ''u2''), (''coupon'', Str ''x'')]" world0]
  obtain cart' where m: "meta_cart (snd (updateMyCart echo_services 20
                            [(''user'', Str ''u2''), (''coupon'', Str ''x'')] (Cart cart0) world0)) = Cart cart'"
    and f: "\<And>k. k \<noteq> ''dateUpdated'' \<Longrightarrow>
              hasOwnProperty cart' k = hasOwnProperty cart0 k
              \<and> js_get cart' k = (if hasOwnProperty cart0 k
                                      \<and> hasOwnProperty [(''user'', Str ''u2''), (''coupon'', Str ''x'')] k
                                   then js_get [(''user'', Str ''u2''), (''coupon'', Str ''x'')] k
                                   else js_get cart0 k)"
    and d: "js_get cart' ''dateUpdated'' = Date 20"
    by blast
  from f [OF k(1)] have "js_get cart' ''user'' = Str ''u2''"
    by (simp add: hasOwnProperty_def js_get_def cart0_def)
  moreover from f [OF k(2)] have "js_get cart' ''items'' = js_get cart0 ''items''"
    by (simp add: hasOwnProperty_def js_get_def cart0_def)
  moreover from f [OF k(3)] have "js_get cart' ''hash'' = Str ''h''"
    by (simp add: hasOwnProperty_def js_get_def cart0_def)
  moreover from f [OF k(4)] have "js_get cart' ''ip'' = Str ''10.0.0.1''"
    by (simp add: hasOwnProperty_def js_get_def cart0_def)
  moreover from f [OF k(5)] have "\<not> hasOwnProperty cart' ''coupon''"
    by (simp add: hasOwnProperty_def js_get_def cart0_def)
  ultimately show ?thesis using m d by blast
qed

subsection \<open>actions.add\<close>

text \<open>
  C3: an \<open>add\<close> whose amount exceeds the stock of the product found. For a
  subscription or a digital product: with a stock above -1 the call fails with
  \<open>InsufficientStock\<close>; with the stock -1 it goes on to the merge
  (\<open>addCartItemRequirements\<close>, then \<open>addToCart\<close>) with the amount set to 1. For any
  other product the call fails with \<open>InsufficientStock\<close>.
\<close>

theorem add_stock_check:
  assumes "first_product found = Some (Product p)"
    and "stockAmount p = Some stock"
    and "add_amount params > stock"
  shows "((product_type p = Some ''subscription'' \<or> subtype p = Some ''digital'') \<and> stock > - 1
            \<longrightarrow> add addCartItemRequirements addToCart params found = Inl InsufficientStock)
         \<and> ((product_type p = Some ''subscription'' \<or> subtype p = Some ''digital'') \<and> stock = - 1
            \<longrightarrow> add addCartItemRequirements addToCart params found
                  = addToCart (params\<lparr>add_amount := 1\<rparr>)
                      (addCartItemRequirements (params\<lparr>add_amount := 1\<rparr>) (Product p)))
         \<and> (\<not> (product_type p = Some ''subscription'' \<or> subtype p = Some ''digital'')
            \<longrightarrow> add addCartItemRequirements addToCart params found = Inl InsufficientStock)"
  using assms by (auto simp add: add_def check_available_def Let_def)

theorem add_stock_check_witness:
  "add no_requirements report_merge \<lparr>add_itemId = ''p-1'', add_amount = 5, add_requirements = None\<rparr>
       (Products [\<lparr>product_id = ''p-1'', stockAmount = Some (- 1),
                   product_type = Some ''subscription'', subtype = None\<rparr>])
     = Inr (Product \<lparr>product_id = ''p-1'', stockAmount = Some (- 1),
                     product_type = Some ''subscription'', subtype = None\<rparr>, 1)
   \<and> add no_requirements report_merge \<lparr>add_itemId = ''p-2'', add_amount = 5, add_requirements = None\<rparr>
       (Products [\<lparr>product_id = ''p-2'', stockAmount = Some 1,
                   product_type = Some ''product'', subtype = Some ''digital''\<rparr>])
     = Inl InsufficientStock
   \<and> add no_requirements report_merge \<lparr>add_itemId = ''p-3'', add_amount = 5, add_requirements = None\<rparr>
       (Products [\<lparr>product_id = ''p-3'', stockAmount = Some 4,
                   product_type = Some ''product'', subtype = Some ''physical''\<rparr>])
     = Inl InsufficientStock"
proof -
  let ?p1 = "\<lparr>product_id = ''p-1'', stockAmount = Some (- 1),
              product_type = Some ''subscription'', subtype = None\<rparr>"
  let ?p2 = "\<lparr>product_id = ''p-2'', stockAmount = Some 1,
              product_type = Some ''product'', subtype = Some ''digital''\<rparr>"
  let ?p3 = "\<lparr>product_id = ''p-3'', stockAmount = Some 4,
              product_type = Some ''product'', subtype = Some ''physical''\<rparr>"
  have f1: "first_product (Products [?p1]) = Some (Product ?p1)" by simp
  have f2: "first_product (Products [?p2]) = Some (Product ?p2)" by simp
  have f3: "first_product (Products [?p3]) = Some (Product ?p3)" by simp
  have s1: "stockAmount ?p1 = Some (- 1)" and s2: "stockAmount ?p2 = Some 1"
    and s3: "stockAmount ?p3 = Some 4" by simp_all
  have a1: "add_amount \<lparr>add_itemId = ''p-1'', add_amount = 5, add_requirements = None\<rparr> > - 1"
    and a2: "add_amount \<lparr>add_itemId = ''p-2'', add_amount = 5, add_requirements = None\<rparr> > 1"
    and a3: "add_amount \<lparr>add_itemId = ''p-3'', add_amount = 5, add_requirements = None\<rparr> > 4"
    by simp_all
  show ?thesis
    using add_stock_check [OF f1 s1 a1, of no_requirements report_merge]
      add_stock_check [OF f2 s2 a2, of no_requirements report_merge]
      add_stock_check [OF f3 s3 a3, of no_requirements report_merge]
    by (simp add: no_requirements_def report_merge_def)
qed

subsection \<open>actions.me\<close>

text \<open>
  C2, as stated: a query result that is a nested collection is normalised by taking its
  first element, and that cart is returned rather than a new empty one. The guard
  \<open>found[0].constructor!==Array\<close> sends such a result to the other branch: on the
  nested answer \<open>[[stored_cart]]\<close> the action creates an empty cart and returns it.
\<close>

theorem me_nested_result_creates_cart:
  "me (createEmptyCart_spec 7) nested_find (Some ''h9'') world0
     = (Cart [(''hash'', Str ''h9''), (''dateCreated'', Date 7), (''dateUpdated'', Date 7),
              (''items'', Items [])],
        \<lparr>meta_cart = Cart [(''hash'', Str ''h9''), (''dateCreated'', Date 7),
                           (''dateUpdated'', Date 7), (''items'', Items [])],
         written = [], emitted = []\<rparr>)
   \<and> fst (me (createEmptyCart_spec 7) nested_find (Some ''h9'') world0) \<noteq> Cart stored_cart
   \<and> fst (me (createEmptyCart_spec 7) nested_find (Some ''h9'') world0) \<noteq> CartList stored_cart []"
  by (simp add: me_def nested_find_def createEmptyCart_spec_def world0_def stored_cart_def Let_def)

text \<open>
  C2, amended: when the storage is queried (the request has no cookie or holds no cart)
  and answers, a flat result whose first element is a document is normalised by taking
  that first element, which is bound to the request and returned; a result whose first
  element is itself a sequence is treated as no cart found: the action returns what
  \<open>createEmptyCart\<close> gives (undefined when it fails).
\<close>

theorem me_takes_first_of_flat_result:
  assumes "cartCookie_of cookies_cart = None \<or> meta_cart w = NoCart"
    and "cart_find (cartCookie_of cookies_cart) = Inr found"
  shows "(\<forall>c rest. found = Arr (Doc c # rest) \<longrightarrow>
            me createEmptyCart cart_find cookies_cart w = (Cart c, w\<lparr>meta_cart := Cart c\<rparr>))
         \<and> (\<forall>inner rest. found = Arr (Arr inner # rest) \<longrightarrow>
            me createEmptyCart cart_find cookies_cart w
              = caught (createEmptyCart (cartCookie_of cookies_cart) w))"
  using assms by (auto simp add: me_def Let_def)

theorem me_takes_first_of_flat_result_witness:
  "meta_cart world0 = NoCart
   \<and> me (createEmptyCart_spec 7) flat_find (Some ''h9'') world0
       = (Cart stored_cart, world0\<lparr>meta_cart := Cart stored_cart\<rparr>)
   \<and> me (createEmptyCart_spec 7) nested_find (Some ''h9'') world0
       = caught (createEmptyCart_spec 7 (Some ''h9'') world0)"
proof -
  have m: "meta_cart world0 = NoCart" by (simp add: world0_def)
  then have q: "cartCookie_of (Some ''h9'') = None \<or> meta_cart world0 = NoCart" by simp
  have f: "flat_find (cartCookie_of (Some ''h9'')) = Inr (Arr (Doc stored_cart # []))"
    by (simp add: flat_find_def)
  have n: "nested_find (cartCookie_of (Some ''h9'')) = Inr (Arr (Arr [Doc stored_cart] # []))"
    by (simp add: nested_find_def)
  show ?thesis
    using m
      me_takes_first_of_flat_result [where cart_find = flat_find and cookies_cart = "Some ''h9''"
        and createEmptyCart = "createEmptyCart_spec 7", OF q f]
      me_takes_first_of_flat_result [where cart_find = nested_find and cookies_cart = "Some ''h9''"
        and createEmptyCart = "createEmptyCart_spec 7", OF q n]
    by simp
qed

subsection \<open>actions.cleanCarts\<close>

lemma remove_each_length: "length (fst (remove_each cart_remove carts s)) = length carts"
proof (induction carts arbitrary: s)
  case Nil
  then show ?case by simp
next
  case (Cons cart carts)
  obtain outcome s1 where a: "cart_remove (js_get cart ''_id'') s = (outcome, s1)"
    by (cases "cart_remove (js_get cart ''_id'') s")
  obtain outcomes s2 where b: "remove_each cart_remove carts s1 = (outcomes, s2)"
    by (cases "remove_each cart_remove carts s1")
  from Cons.IH [of s1] b have "length outcomes = length carts" by simp
  with a b show ?case by simp
qed

lemma remove_each_state:
  "snd (remove_each cart_remove carts s)
     = fold (\<lambda>cart st. snd (cart_remove (js_get cart ''_id'') st)) carts s"
proof (induction carts arbitrary: s)
  case Nil
  then show ?case by simp
next
  case (Cons cart carts)
  obtain outcome s1 where a: "cart_remove (js_get cart ''_id'') s = (outcome, s1)"
    by (cases "cart_remove (js_get cart ''_id'') s")
  obtain outcomes s2 where b: "remove_each cart_remove carts s1 = (outcomes, s2)"
    by (cases "remove_each cart_remove carts s1")
  from Cons.IH [of s1] b
  have "s2 = fold (\<lambda>cart st. snd (cart_remove (js_get cart ''_id'') st)) carts s1" by simp
  with a b show ?case by simp
qed

lemma remove_each_nth:
  "i < length carts \<Longrightarrow>
     fst (remove_each cart_remove carts s) ! i
       = fst (cart_remove (js_get (carts ! i) ''_id'')
                (fold (\<lambda>cart st. snd (cart_remove (js_get cart ''_id'') st)) (take i carts) s))"
proof (induction carts arbitrary: s i)
  case Nil
  then show ?case by simp
next
  case (Cons cart carts)
  obtain outcome s1 where a: "cart_remove (js_get cart ''_id'') s = (outcome, s1)"
    by (cases "cart_remove (js_get cart ''_id'') s")
  obtain outcomes s2 where b: "remove_each cart_remove carts s1 = (outcomes, s2)"
    by (cases "remove_each cart_remove carts s1")
  show ?case
  proof (cases i)
    case 0
    with a b show ?thesis by simp
  next
    case (Suc j)
    with Cons.prems have "j < length carts" by simp
    from Cons.IH [OF this, of s1] b
    have "outcomes ! j
            = fst (cart_remove (js_get (carts ! j) ''_id'')
                     (fold (\<lambda>cart st. snd (cart_remove (js_get cart ''_id'') st)) (take j carts) s1))"
      by simp
    with a b Suc show ?thesis by simp
  qed
qed

lemma promise_all_fulfilled:
  "\<forall>p\<in>set ps. \<not> isl p \<Longrightarrow> promise_all ps = Inr (map projr ps)"
proof (induction ps)
  case Nil
  then show ?case by simp
next
  case (Cons p ps)
  then show ?case by (cases p) auto
qed

lemma promise_all_rejected:
  "\<exists>p\<in>set ps. isl p \<Longrightarrow> \<exists>err. promise_all ps = Inl err \<and> Inl err \<in> set ps"
proof (induction ps)
  case Nil
  then show ?case by simp
next
  case (Cons p ps)
  show ?case
  proof (cases p)
    case (Inl err)
    then show ?thesis by simp
  next
    case (Inr v)
    with Cons.prems have "\<exists>q\<in>set ps. isl q" by auto
    with Cons.IH obtain err where "promise_all ps = Inl err" "Inl err \<in> set ps" by blast
    with Inr show ?thesis by simp
  qed
qed

lemma isl_then_report: "isl (then_report stringify out) = isl out"
  by (cases out) auto

lemma then_report_rejected: "then_report stringify out = Inl err \<Longrightarrow> out = Inl err"
  by (cases out) auto

lemma projr_then_report:
  "\<not> isl out \<Longrightarrow> projr (then_report stringify out) = ''Removed carts: '' @ stringify (projr out)"
  by (cases out) auto

text \<open>
  C1, as stated: when one removal fails, the result still lists one outcome per stale
  cart. \<open>Promise.all\<close> rejects instead: with three stale carts of which \<open>b\<close> cannot be
  removed, the carts \<open>a\<close> and \<open>c\<close> are removed, but the action is rejected with the
  error of \<open>b\<close> and reports no outcome at all.
\<close>

theorem cleanCarts_one_failure_rejects:
  "list_find 10 old_carts
     = Inr [[(''_id'', Str ''a''), (''dateUpdated'', Date 1)],
            [(''_id'', Str ''b''), (''dateUpdated'', Date 2)],
            [(''_id'', Str ''c''), (''dateUpdated'', Date 3)]]
   \<and> cleanCarts list_find (list_remove [Str ''b'']) show_id 10 old_carts
       = (Inl (StorageError ''remove failed''),
          [[(''_id'', Str ''b''), (''dateUpdated'', Date 2)],
           [(''_id'', Str ''d''), (''dateUpdated'', Date 50)]])"
  by (simp add: cleanCarts_def list_find_def list_remove_def old_carts_def js_get_def)

text \<open>
  C1, amended: one removal is issued for every stale cart found, whatever the others
  answer: the storage after the sweep is the storage after the removal calls for all the
  carts found, in order, and \<open>outcomes\<close>, one per cart found, are the answers of these
  calls, each made on the storage its predecessors left. When every removal succeeds,
  the result is one string "Removed carts: ..." per stale cart, in order. When a removal
  fails, the action as a whole is rejected with the error of a failed removal, and no
  list of outcomes is returned.
\<close>

theorem cleanCarts_outcomes:
  assumes "adapter_find d s = Inr found"
  shows "snd (cleanCarts adapter_find cart_remove stringify d s)
           = fold (\<lambda>cart st. snd (cart_remove (js_get cart ''_id'') st)) found s
         \<and> (\<exists>outcomes.
               length outcomes = length found
             \<and> (\<forall>i<length found.
                   outcomes ! i
                     = fst (cart_remove (js_get (found ! i) ''_id'')
                              (fold (\<lambda>cart st. snd (cart_remove (js_get cart ''_id'') st))
                                 (take i found) s)))
             \<and> ((\<forall>out\<in>set outcomes. \<not> isl out) \<longrightarrow>
                  fst (cleanCarts adapter_find cart_remove stringify d s)
                    = Inr (map (\<lambda>out. ''Removed carts: '' @ stringify (projr out)) outcomes))
             \<and> ((\<exists>out\<in>set outcomes. isl out) \<longrightarrow>
                  (\<exists>err. fst (cleanCarts adapter_find cart_remove stringify d s) = Inl err
                         \<and> Inl err \<in> set outcomes)))"
proof -
  define outcomes where "outcomes = fst (remove_each cart_remove found s)"
  let ?ps = "map (then_report stringify) outcomes"
  from assms have c: "cleanCarts adapter_find cart_remove stringify d s
                        = (promise_all ?ps, snd (remove_each cart_remove found s))"
    by (simp add: cleanCarts_def outcomes_def split: prod.split)
  have st: "snd (cleanCarts adapter_find cart_remove stringify d s)
              = fold (\<lambda>cart st. snd (cart_remove (js_get cart ''_id'') st)) found s"
    using c by (simp add: remove_each_state)
  have len: "length outcomes = length found"
    by (simp add: outcomes_def remove_each_length)
  have nth: "\<forall>i<length found.
               outcomes ! i
                 = fst (cart_remove (js_get (found ! i) ''_id'')
                          (fold (\<lambda>cart st. snd (cart_remove (js_get cart ''_id'') st))
                             (take i found) s))"
    by (simp add: outcomes_def remove_each_nth)
  have ok: "(\<forall>out\<in>set outcomes. \<not> isl out) \<longrightarrow>
              fst (cleanCarts adapter_find cart_remove stringify d s)
                = Inr (map (\<lambda>out. ''Removed carts: '' @ stringify (projr out)) outcomes)"
  proof
    assume all: "\<forall>out\<in>set outcomes. \<not> isl out"
    then have "\<forall>p\<in>set ?ps. \<not> isl p" by (simp add: isl_then_report)
    then have "promise_all ?ps = Inr (map projr ?ps)" by (rule promise_all_fulfilled)
    moreover from all
    have "map projr ?ps = map (\<lambda>out. ''Removed carts: '' @ stringify (projr out)) outcomes"
      by (simp add: projr_then_report)
    ultimately show "fst (cleanCarts adapter_find cart_remove stringify d s)
                       = Inr (map (\<lambda>out. ''Removed carts: '' @ stringify (projr out)) outcomes)"
      using c by simp
  qed
  have bad: "(\<exists>out\<in>set outcomes. isl out) \<longrightarrow>
               (\<exists>err. fst (cleanCarts adapter_find cart_remove stringify d s) = Inl err
                      \<and> Inl err \<in> set outcomes)"
  proof
    assume "\<exists>out\<in>set outcomes. isl out"
    then have "\<exists>p\<in>set ?ps. isl p" by (simp add: isl_then_report)
    then obtain err where e: "promise_all ?ps = Inl err" "Inl err \<in> set ?ps"
      using promise_all_rejected by blast
    from e(2) obtain out where "out \<in> set outcomes" "then_report stringify out = Inl err" by auto
    then have "Inl err \<in> set outcomes" by (auto dest: then_report_rejected)
    with e(1) c show "\<exists>err. fst (cleanCarts adapter_find cart_remove stringify d s) = Inl err
                            \<and> Inl err \<in> set outcomes"
      by simp
  qed
  from st len nth ok bad show ?thesis by blast
qed

theorem cleanCarts_outcomes_witness:
  "snd (cleanCarts list_find (list_remove [Str ''b'']) show_id 10 old_carts)
     = [[(''_id'', Str ''b''), (''dateUpdated'', Date 2)],
        [(''_id'', Str ''d''), (''dateUpdated'', Date 50)]]
   \<and> (\<exists>err. fst (cleanCarts list_find (list_remove [Str ''b'']) show_id 10 old_carts) = Inl err)
   \<and> snd (cleanCarts list_find (list_remove []) show_id 10 old_carts)
       = [[(''_id'', Str ''d''), (''dateUpdated'', Date 50)]]
   \<and> (\<exists>rs. fst (cleanCarts list_find (list_remove []) show_id 10 old_carts) = Inr rs
            \<and> length rs = 3)"
proof -
  let ?found = "[[(''_id'', Str ''a''), (''dateUpdated'', Date 1)],
                 [(''_id'', Str ''b''), (''dateUpdated'', Date 2)],
                 [(''_id'', Str ''c''), (''dateUpdated'', Date 3)]]"
  have f: "list_find 10 old_carts = Inr ?found"
    by (simp add: list_find_def old_carts_def js_get_def)
  have three: "{..<3::nat} = {0, 1, 2}" by auto
  from cleanCarts_outcomes [where adapter_find = list_find and cart_remove = "list_remove [Str ''b'']"
         and stringify = show_id, OF f]
  obtain outcomes where
    s1: "snd (cleanCarts list_find (list_remove [Str ''b'']) show_id 10 old_carts)
           = fold (\<lambda>cart st. snd (list_remove [Str ''b''] (js_get cart ''_id'') st)) ?found old_carts"
    and l1: "length outcomes = length ?found"
    and n1: "\<forall>i<length ?found.
               outcomes ! i
                 = fst (list_remove [Str ''b''] (js_get (?found ! i) ''_id'')
                          (fold (\<lambda>cart st. snd (list_remove [Str ''b''] (js_get cart ''_id'') st))
                             (take i ?found) old_carts))"
    and b1: "(\<exists>out\<in>set outcomes. isl out) \<longrightarrow>
               (\<exists>err. fst (cleanCarts list_find (list_remove [Str ''b'']) show_id 10 old_carts) = Inl err
                      \<and> Inl err \<in> set outcomes)"
    by blast
  from n1 have "outcomes ! 1 = fst (list_remove [Str ''b''] (js_get (?found ! 1) ''_id'')
                          (fold (\<lambda>cart st. snd (list_remove [Str ''b''] (js_get cart ''_id'') st))
                             (take 1 ?found) old_carts))"
    by simp
  then have "isl (outcomes ! 1)" by (simp add: list_remove_def js_get_def)
  moreover from l1 have "outcomes ! 1 \<in> set outcomes" by simp
  ultimately have "\<exists>out\<in>set outcomes. isl out" by blast
  with b1 have r1: "\<exists>err. fst (cleanCarts list_find (list_remove [Str ''b'']) show_id 10 old_carts)
                           = Inl err"
    by blast
  from s1 have t1: "snd (cleanCarts list_find (list_remove [Str ''b'']) show_id 10 old_carts)
                      = [[(''_id'', Str ''b''), (''dateUpdated'', Date 2)],
                         [(''_id'', Str ''d''), (''dateUpdated'', Date 50)]]"
    by (simp add: list_remove_def old_carts_def js_get_def)
  from cleanCarts_outcomes [where adapter_find = list_find and cart_remove = "list_remove []"
         and stringify = show_id, OF f]
  obtain outcomes0 where
    s0: "snd (cleanCarts list_find (list_remove []) show_id 10 old_carts)
           = fold (\<lambda>cart st. snd (list_remove [] (js_get cart ''_id'') st)) ?found old_carts"
    and l0: "length outcomes0 = length ?found"
    and n0: "\<forall>i<length ?found.
               outcomes0 ! i
                 = fst (list_remove [] (js_get (?found ! i) ''_id'')
                          (fold (\<lambda>cart st. snd (list_remove [] (js_get cart ''_id'') st))
                             (take i ?found) old_carts))"
    and g0: "(\<forall>out\<in>set outcomes0. \<not> isl out) \<longrightarrow>
               fst (cleanCarts list_find (list_remove []) show_id 10 old_carts)
                 = Inr (map (\<lambda>out. ''Removed carts: '' @ show_id (projr out)) outcomes0)"
    by blast
  have "\<forall>i<length outcomes0. \<not> isl (outcomes0 ! i)"
    using n0 l0 by (simp add: list_remove_def)
  then have "\<forall>out\<in>set outcomes0. \<not> isl out" by (auto simp add: in_set_conv_nth)
  with g0 l0 have r0: "\<exists>rs. fst (cleanCarts list_find (list_remove []) show_id 10 old_carts) = Inr rs
                            \<and> length rs = 3"
    by simp
  from s0 have t0: "snd (cleanCarts list_find (list_remove []) show_id 10 old_carts)
                      = [[(''_id'', Str ''d''), (''dateUpdated'', Date 50)]]"
    by (simp add: list_remove_def old_carts_def js_get_def)
  from t1 r1 t0 r0 show ?thesis by blast
qed

end
